theory Spec2Isabelle
  imports Complex_Main "HOL-Library.Sublist"
begin

section \<open>Strings\<close>

text \<open>
  JavaScript strings are modelled as \<^typ>\<open>string\<close> (lists of characters) over ASCII.
  \<open>toLowerCase\<close> maps the letters A to Z to a to z and leaves every other character
  alone; \<open>strIncludes\<close> is the substring test \<open>String.prototype.includes\<close>.
  JavaScript numbers are modelled as exact reals: rounding of doubles is not modelled.
\<close>

definition lowerChar :: "char \<Rightarrow> char" where
  "lowerChar c =
     (case map_of (zip ''ABCDEFGHIJKLMNOPQRSTUVWXYZ'' ''abcdefghijklmnopqrstuvwxyz'') c of
        None \<Rightarrow> c
      | Some l \<Rightarrow> l)"

definition toLowerCase :: "string \<Rightarrow> string" where
  "toLowerCase s = map lowerChar s"

definition startsWith :: "string \<Rightarrow> string \<Rightarrow> bool" where
  "startsWith s kw = (take (length kw) s = kw)"

fun strIncludes :: "string \<Rightarrow> string \<Rightarrow> bool" where
  "strIncludes [] kw = (kw = [])"
| "strIncludes (c # cs) kw = (startsWith (c # cs) kw \<or> strIncludes cs kw)"

section \<open>News items\<close>

text \<open>
  The item shape every news adapter produces. \<open>description\<close> and \<open>url\<close> may be absent
  (\<open>undefined\<close> or \<open>null\<close>); \<open>title\<close> is a string; \<open>publishedAt\<close> is the time value
  of \<open>new Date(article.publishedAt)\<close> in milliseconds since the epoch, for a date that
  parses. \<open>sourceName\<close> stands for \<open>source.name\<close>.
\<close>

record article =
  title :: string
  description :: "string option"
  url :: "string option"
  sourceName :: string
  publishedAt :: int

datatype impact = High | Medium | Low

datatype sentiment = Positive | Negative | Neutral

text \<open>\<open>article.title + ' ' + (article.description || '')\<close>\<close>

definition rawContent :: "article \<Rightarrow> string" where
  "rawContent a = title a @ '' '' @ (case description a of None \<Rightarrow> [] | Some d \<Rightarrow> d)"

definition content :: "article \<Rightarrow> string" where
  "content a = toLowerCase (rawContent a)"

subsection \<open>analyzeMarketImpact\<close>

definition highImpactKeywords :: "string list" where
  "highImpactKeywords =
     [''fed'', ''interest rates'', ''inflation'', ''earnings'', ''merger'', ''acquisition'',
      ''federal reserve'', ''ecb'', ''central bank'', ''gdp'', ''unemployment'', ''rate hike'',
      ''quarterly results'', ''profit'', ''revenue'', ''dividend'']"

definition mediumImpactKeywords :: "string list" where
  "mediumImpactKeywords =
     [''economic'', ''growth'', ''market'', ''trading'', ''investment'', ''forecast'',
      ''outlook'', ''analysis'', ''price target'', ''upgrade'', ''downgrade'']"

definition highImpactCount :: "article \<Rightarrow> nat" where
  "highImpactCount a = length (filter (strIncludes (content a)) highImpactKeywords)"

definition mediumImpactCount :: "article \<Rightarrow> nat" where
  "mediumImpactCount a = length (filter (strIncludes (content a)) mediumImpactKeywords)"

definition analyzeMarketImpact :: "article \<Rightarrow> impact" where
  "analyzeMarketImpact a =
     (if highImpactCount a \<ge> 2 then High
      else if highImpactCount a \<ge> 1 \<or> mediumImpactCount a \<ge> 2 then Medium
      else Low)"

subsection \<open>analyzeAdvancedSentiment\<close>

definition positiveWords :: "string list" where
  "positiveWords =
     [''gain'', ''rise'', ''profit'', ''growth'', ''bullish'', ''surge'', ''rally'', ''increase'',
      ''positive'', ''strong'', ''beat'', ''upgrade'', ''buy'', ''outperform'', ''success'']"

definition negativeWords :: "string list" where
  "negativeWords =
     [''fall'', ''drop'', ''loss'', ''decline'', ''bearish'', ''slump'', ''plunge'', ''decrease'',
      ''negative'', ''weak'', ''miss'', ''downgrade'', ''sell'', ''underperform'', ''failure'']"

definition positiveCount :: "article \<Rightarrow> nat" where
  "positiveCount a = length (filter (strIncludes (content a)) positiveWords)"

definition negativeCount :: "article \<Rightarrow> nat" where
  "negativeCount a = length (filter (strIncludes (content a)) negativeWords)"

definition sentimentScore :: "article \<Rightarrow> int" where
  "sentimentScore a = int (positiveCount a) - int (negativeCount a)"

definition analyzeAdvancedSentiment :: "article \<Rightarrow> sentiment" where
  "analyzeAdvancedSentiment a =
     (if sentimentScore a \<ge> 2 then Positive
      else if sentimentScore a \<le> - 2 then Negative
      else Neutral)"

subsection \<open>calculateUrgencyScore\<close>

definition breakingKeywords :: "string list" where
  "breakingKeywords = [''breaking'', ''urgent'', ''immediate'', ''alert'', ''just in'']"

definition hasBreaking :: "article \<Rightarrow> bool" where
  "hasBreaking a = list_ex (\<lambda>keyword. strIncludes (toLowerCase (title a)) keyword) breakingKeywords"

text \<open>\<open>(now - published) / (1000 * 60 * 60)\<close>, with \<open>now\<close> the clock reading in milliseconds.\<close>

definition hoursDiff :: "int \<Rightarrow> article \<Rightarrow> real" where
  "hoursDiff now a = real_of_int (now - publishedAt a) / (1000 * 60 * 60)"

definition calculateUrgencyScore :: "int \<Rightarrow> article \<Rightarrow> real" where
  "calculateUrgencyScore now a =
     (let score = max 0 (24 - hoursDiff now a) / 24;
          score = (if hasBreaking a then score + 3 / 10 else score)
      in min 1 score)"


section \<open>News aggregation handler\<close>

subsection \<open>Adapter results\<close>

text \<open>
  A function call either returns a value or throws. The value an adapter hands to the
  merge loop is tested for truthiness and then iterated with \<open>forEach\<close>: it is a falsy
  value, an array of items, or a truthy value that has no \<open>forEach\<close> (a string, a number,
  a plain object), on which the loop throws a TypeError.
\<close>

datatype 'a outcome = Returned 'a | Threw

datatype jsvalue = Falsy | Items "article list" | NotIterable

text \<open>One entry of \<open>Promise.allSettled\<close>.\<close>

datatype settled = Fulfilled jsvalue | Rejected

definition settle :: "jsvalue outcome \<Rightarrow> settled" where
  "settle r = (case r of Returned v \<Rightarrow> Fulfilled v | Threw \<Rightarrow> Rejected)"

text \<open>A string option is truthy when it is present and not the empty string.\<close>

definition truthy :: "string option \<Rightarrow> bool" where
  "truthy v = (case v of None \<Rightarrow> False | Some s \<Rightarrow> s \<noteq> [])"

subsection \<open>The news adapters\<close>

text \<open>
  The process environment, and what each upstream answers when it is called.
  \<open>axios.get\<close> throws on a network error, a timeout or a non-2xx status (\<open>HttpError\<close>);
  otherwise it yields \<open>response.data\<close>. A body of \<open>None\<close> stands for a
  \<open>response.data\<close> that is \<open>undefined\<close> or \<open>null\<close>, on which a property read throws.
  The request parameters (category, page size, key) only select the answer, so the
  answer itself is the parameter. Each adapter returns its value together with the list
  of hosts it called.
\<close>

record env =
  NEWS_API_KEY :: "string option"
  ALPHA_VANTAGE_KEY :: "string option"
  FINNHUB_KEY :: "string option"
  GOOGLE_ADSENSE_CLIENT :: "string option"

datatype 'a http = HttpError | HttpOk 'a

record newsApiBody =
  body_articles :: jsvalue

text \<open>
  \<open>item.ticker_sentiment\<close>: \<open>undefined\<close> or \<open>null\<close>, an array of entries with these
  tickers, or any other value, which has no \<open>map\<close>.
\<close>

datatype tickerValue = NoTickers | Tickers "string list" | TickersNotArray

text \<open>
  \<open>item_time_published\<close> is the time value that \<open>new Date\<close> later reads from the
  \<open>time_published\<close> string the adapter passes on, for a string that parses.
\<close>

record feedItem =
  item_title :: string
  item_summary :: "string option"
  item_url :: "string option"
  item_source :: string
  item_time_published :: int
  item_ticker_sentiment :: tickerValue

text \<open>
  \<open>response.data.feed\<close>: absent or falsy, an array of items, or a truthy value without
  \<open>map\<close>.
\<close>

datatype feedValue = NoFeed | Feed "feedItem list" | FeedNotArray

record alphaVantageBody =
  body_feed :: feedValue

text \<open>\<open>item.related\<close>: falsy, a non-empty string, or a truthy value without \<open>split\<close>.\<close>

datatype relatedValue = NoRelated | Related string | RelatedNotString

text \<open>\<open>fh_datetime\<close> is \<open>item.datetime\<close>, in seconds; \<open>None\<close> when it is missing or not a number.\<close>

record finnhubItem =
  fh_headline :: string
  fh_summary :: "string option"
  fh_url :: "string option"
  fh_source :: string
  fh_datetime :: "int option"
  fh_related :: relatedValue

record upstream =
  newsapi :: "newsApiBody option http"
  alphavantage :: "alphaVantageBody option http"
  finnhub :: "finnhubItem list option http"

text \<open>\<open>response.data.articles || []\<close>\<close>

definition orEmpty :: "jsvalue \<Rightarrow> jsvalue" where
  "orEmpty v = (case v of Falsy \<Rightarrow> Items [] | _ \<Rightarrow> v)"

definition newsApiTry :: "upstream \<Rightarrow> jsvalue outcome" where
  "newsApiTry up =
     (case newsapi up of
        HttpError \<Rightarrow> Threw
      | HttpOk None \<Rightarrow> Threw
      | HttpOk (Some body) \<Rightarrow> Returned (orEmpty (body_articles body)))"

definition fetchNewsAPI :: "env \<Rightarrow> upstream \<Rightarrow> jsvalue outcome \<times> string list" where
  "fetchNewsAPI e up =
     (if \<not> truthy (NEWS_API_KEY e) then (Returned (Items []), [])
      else (case newsApiTry up of
              Returned v \<Rightarrow> (Returned v, [''newsapi.org''])
            | Threw \<Rightarrow> (Returned (Items []), [''newsapi.org''])))"

text \<open>
  The callback of \<open>map\<close>; \<open>None\<close> when it throws, which
  \<open>item.ticker_sentiment?.map(...)\<close> does on a value without \<open>map\<close>. The fields
  \<open>sentiment\<close> and \<open>tickers\<close> it also sets are overwritten or never read afterwards.
\<close>

definition feedToArticle :: "feedItem \<Rightarrow> article option" where
  "feedToArticle item =
     (case item_ticker_sentiment item of
        TickersNotArray \<Rightarrow> None
      | _ \<Rightarrow>
          Some \<lparr>title = item_title item, description = item_summary item, url = item_url item,
                sourceName = item_source item, publishedAt = item_time_published item\<rparr>)"

definition alphaVantageTry :: "upstream \<Rightarrow> jsvalue outcome" where
  "alphaVantageTry up =
     (case alphavantage up of
        HttpError \<Rightarrow> Threw
      | HttpOk None \<Rightarrow> Returned (Items [])
      | HttpOk (Some body) \<Rightarrow>
          (case body_feed body of
             NoFeed \<Rightarrow> Returned (Items [])
           | Feed items \<Rightarrow>
               (case those (map feedToArticle items) of
                  None \<Rightarrow> Threw
                | Some as \<Rightarrow> Returned (Items as))
           | FeedNotArray \<Rightarrow> Threw))"

definition fetchAlphaVantageNews :: "env \<Rightarrow> upstream \<Rightarrow> jsvalue outcome \<times> string list" where
  "fetchAlphaVantageNews e up =
     (if \<not> truthy (ALPHA_VANTAGE_KEY e) then (Returned (Items []), [])
      else (case alphaVantageTry up of
              Returned v \<Rightarrow> (Returned v, [''www.alphavantage.co''])
            | Threw \<Rightarrow> (Returned (Items []), [''www.alphavantage.co''])))"

text \<open>
  The time value of \<open>new Date(item.datetime * 1000)\<close>: a date exists only within
  8.64e15 milliseconds of the epoch; otherwise the date is invalid (\<open>None\<close>) and
  \<open>toISOString\<close> throws a RangeError.
\<close>

definition finnhubTime :: "finnhubItem \<Rightarrow> int option" where
  "finnhubTime item =
     (case fh_datetime item of
        None \<Rightarrow> None
      | Some d \<Rightarrow> if \<bar>d * 1000\<bar> \<le> 8640000000000000 then Some (d * 1000) else None)"

text \<open>
  The callback of \<open>map\<close>; \<open>None\<close> when it throws: on an invalid date, and on
  \<open>item.related.split(',')\<close> for a value without \<open>split\<close>. The \<open>relatedAssets\<close> it sets
  are overwritten afterwards.
\<close>

definition finnhubToArticle :: "finnhubItem \<Rightarrow> article option" where
  "finnhubToArticle item =
     (case finnhubTime item of
        None \<Rightarrow> None
      | Some t \<Rightarrow>
          if fh_related item = RelatedNotString then None
          else Some \<lparr>title = fh_headline item, description = fh_summary item,
                      url = fh_url item, sourceName = fh_source item, publishedAt = t\<rparr>)"

text \<open>
  \<open>response.data.slice(0, 10).map(...)\<close>; a \<open>response.data\<close> that is not an array
  (\<open>None\<close>) makes the chain throw, and so does one of the first ten items on which the
  callback throws.
\<close>

definition finnhubTry :: "upstream \<Rightarrow> jsvalue outcome" where
  "finnhubTry up =
     (case finnhub up of
        HttpError \<Rightarrow> Threw
      | HttpOk None \<Rightarrow> Threw
      | HttpOk (Some items) \<Rightarrow>
          (case those (map finnhubToArticle (take 10 items)) of
             None \<Rightarrow> Threw
           | Some as \<Rightarrow> Returned (Items as)))"

definition fetchFinnhubMarketNews :: "env \<Rightarrow> upstream \<Rightarrow> jsvalue outcome \<times> string list" where
  "fetchFinnhubMarketNews e up =
     (if \<not> truthy (FINNHUB_KEY e) then (Returned (Items []), [])
      else (case finnhubTry up of
              Returned v \<Rightarrow> (Returned v, [''finnhub.io''])
            | Threw \<Rightarrow> (Returned (Items []), [''finnhub.io''])))"

subsection \<open>Merge and deduplication\<close>

text \<open>
  The loop state is the pair \<open>(allArticles, seenUrls)\<close>. An item is appended when its
  \<open>url\<close> is truthy and not yet seen.
\<close>

type_synonym mergeState = "article list \<times> string set"

definition visitArticle :: "article \<Rightarrow> mergeState \<Rightarrow> mergeState" where
  "visitArticle a st =
     (case st of (allArticles, seenUrls) \<Rightarrow>
        (case url a of
           None \<Rightarrow> st
         | Some u \<Rightarrow>
             if u \<noteq> [] \<and> u \<notin> seenUrls then (allArticles @ [a], insert u seenUrls) else st))"

text \<open>
  \<open>if (result.status === 'fulfilled' && result.value) result.value.forEach(...)\<close>;
  \<open>None\<close> is the TypeError of a value without \<open>forEach\<close>.
\<close>

fun visitResult :: "settled \<Rightarrow> mergeState \<Rightarrow> mergeState option" where
  "visitResult Rejected st = Some st"
| "visitResult (Fulfilled Falsy) st = Some st"
| "visitResult (Fulfilled (Items xs)) st = Some (fold visitArticle xs st)"
| "visitResult (Fulfilled NotIterable) st = None"

fun mergeResults :: "settled list \<Rightarrow> mergeState \<Rightarrow> mergeState option" where
  "mergeResults [] st = Some st"
| "mergeResults (r # rs) st =
     (case visitResult r st of None \<Rightarrow> None | Some st' \<Rightarrow> mergeResults rs st')"

subsection \<open>Scoring, ranking and the response\<close>

text \<open>
  \<open>allArticles.slice(0, pageSize)\<close>, with \<open>pageSize\<close> the integer the query string
  converts to; a negative end counts from the end of the array.
\<close>

definition sliceTo :: "'a list \<Rightarrow> int \<Rightarrow> 'a list" where
  "sliceTo xs n = (if n < 0 then take (nat (int (length xs) + n)) xs else take (nat n) xs)"

text \<open>
  The analysed item: the source item with the derived scores added. The fields
  \<open>relatedAssets\<close> and \<open>tradingImplications\<close> are further pure functions of the text;
  they take no part in identity or ranking and are left out.
\<close>

record analyzedArticle = article +
  marketImpact :: impact
  sentiment :: sentiment
  urgency :: real

definition analyze :: "int \<Rightarrow> article \<Rightarrow> analyzedArticle" where
  "analyze now a =
     \<lparr>title = title a, description = description a, url = url a, sourceName = sourceName a,
      publishedAt = publishedAt a,
      marketImpact = analyzeMarketImpact a,
      sentiment = analyzeAdvancedSentiment a,
      urgency = calculateUrgencyScore now a\<rparr>"

definition impactScore :: "impact \<Rightarrow> real" where
  "impactScore i = (case i of High \<Rightarrow> 3 | Medium \<Rightarrow> 2 | Low \<Rightarrow> 1)"

definition rankKey :: "analyzedArticle \<Rightarrow> real" where
  "rankKey a = impactScore (marketImpact a) + urgency a"

text \<open>
  \<open>sort((a, b) => rankKey b - rankKey a)\<close>: a stable sort, largest key first. The keys
  are exact reals here; where rounding of doubles makes or breaks a tie, the order of the
  program can differ. Nothing below depends on the order.
\<close>

definition rankArticles :: "analyzedArticle list \<Rightarrow> analyzedArticle list" where
  "rankArticles xs = sort_key (\<lambda>a. - rankKey a) xs"

record marketSummary =
  overallSentiment :: sentiment
  marketImpactLevel :: impact
  newsVolume :: nat

definition generateMarketSummary :: "analyzedArticle list \<Rightarrow> marketSummary" where
  "generateMarketSummary as =
     (let highImpact = length (filter (\<lambda>a. marketImpact a = High) as);
          positive = length (filter (\<lambda>a. sentiment a = Positive) as);
          negative = length (filter (\<lambda>a. sentiment a = Negative) as)
      in \<lparr>overallSentiment =
            (if positive > negative then Positive
             else if negative > positive then Negative else Neutral),
          marketImpactLevel =
            (if highImpact > 3 then High else if highImpact > 1 then Medium else Low),
          newsVolume = length as\<rparr>)"

record response =
  statusCode :: nat
  articles :: "analyzedArticle list"
  totalResults :: nat
  sourcesUsed :: "bool list"
  analyzedAt :: int
  summary :: marketSummary
  error :: "string option"

definition isFulfilled :: "settled \<Rightarrow> bool" where
  "isFulfilled r = (case r of Fulfilled _ \<Rightarrow> True | Rejected \<Rightarrow> False)"

text \<open>The body of the \<open>try\<close> block once the promises have settled.\<close>

definition aggregate :: "int \<Rightarrow> int \<Rightarrow> settled list \<Rightarrow> response option" where
  "aggregate pageSize now results =
     (case mergeResults results ([], {}) of
        None \<Rightarrow> None
      | Some (allArticles, seenUrls) \<Rightarrow>
          (let analyzedArticles = rankArticles (map (analyze now) (sliceTo allArticles pageSize))
           in Some \<lparr>statusCode = 200,
                    articles = analyzedArticles,
                    totalResults = length analyzedArticles,
                    sourcesUsed = map isFulfilled results,
                    analyzedAt = now,
                    summary = generateMarketSummary analyzedArticles,
                    error = None\<rparr>))"

definition fallbackArticles :: "int \<Rightarrow> analyzedArticle list" where
  "fallbackArticles now =
     [\<lparr>title = ''Market Pulse: Key Economic Indicators to Watch This Week'',
       description = Some ''Professional traders are monitoring inflation data and central bank announcements for market direction signals.'',
       url = Some ''#'', sourceName = ''Market Intelligence'', publishedAt = now,
       marketImpact = Medium, sentiment = Neutral, urgency = 1 / 2\<rparr>,
      \<lparr>title = ''Technical Analysis: Major Support and Resistance Levels'',
       description = Some ''Key technical levels being tested across major indices and currency pairs in current session.'',
       url = Some ''#'', sourceName = ''Technical Analysis'', publishedAt = now,
       marketImpact = Low, sentiment = Neutral, urgency = 3 / 10\<rparr>]"

definition getFallbackNews :: "int \<Rightarrow> response" where
  "getFallbackNews now =
     \<lparr>statusCode = 200,
      articles = fallbackArticles now,
      totalResults = length (fallbackArticles now),
      sourcesUsed = [False, False, False, True],
      analyzedAt = now,
      summary = generateMarketSummary (fallbackArticles now),
      error = Some ''Using fallback news data''\<rparr>"

text \<open>
  The fourth adapter the handler calls is \<open>fetchFallbackFinancialNews\<close>. What a call of a
  fourth adapter can do is: throw at the call (\<open>CallThrows\<close>), or yield a promise that
  settles. \<open>handler\<close> is the body of \<open>exports.handler\<close> for any such behaviour.
\<close>

datatype adapterCall = CallThrows | Settles settled

definition newsResults :: "env \<Rightarrow> upstream \<Rightarrow> settled \<Rightarrow> settled list" where
  "newsResults e up r4 =
     [settle (fst (fetchNewsAPI e up)),
      settle (fst (fetchAlphaVantageNews e up)),
      settle (fst (fetchFinnhubMarketNews e up)),
      r4]"

definition handler :: "env \<Rightarrow> upstream \<Rightarrow> adapterCall \<Rightarrow> int \<Rightarrow> int \<Rightarrow> response" where
  "handler e up fourth pageSize now =
     (case fourth of
        CallThrows \<Rightarrow> getFallbackNews now
      | Settles r4 \<Rightarrow>
          (case aggregate pageSize now (newsResults e up r4) of
             None \<Rightarrow> getFallbackNews now
           | Some r \<Rightarrow> r))"

text \<open>
  The module has no binding for \<open>fetchFallbackFinancialNews\<close>: no declaration, no import.
  Evaluating the call in the array literal of the fan-out therefore throws a ReferenceError,
  inside the \<open>try\<close> block and after the three news adapters have been called.
\<close>

definition fetchFallbackFinancialNews :: adapterCall where
  "fetchFallbackFinancialNews = CallThrows"

text \<open>\<open>exports.handler\<close> of the news function as the module has it.\<close>

definition exports_handler :: "env \<Rightarrow> upstream \<Rightarrow> int \<Rightarrow> int \<Rightarrow> response" where
  "exports_handler e up pageSize now = handler e up fetchFallbackFinancialNews pageSize now"


section \<open>Ad optimizer\<close>

subsection \<open>Configuration and performance records\<close>

text \<open>
  \<open>AD_NETWORKS\<close> is an object keyed by network name; it is modelled as an association
  list in insertion order, which is the order \<open>Object.entries\<close> yields. The ranking
  functions take the table as an argument so that they can be stated for any
  configuration; the table of the source is the constant \<open>AD_NETWORKS\<close>.
\<close>

record networkConfig =
  name :: string
  enabled :: bool
  revenueScore :: real
  loadTime :: real
  fillRate :: real
  priority :: nat
  paymentThreshold :: nat

type_synonym networks = "(string \<times> networkConfig) list"

definition AD_NETWORKS :: networks where
  "AD_NETWORKS =
     [(''adsense'', \<lparr>name = ''Google AdSense'', enabled = True, revenueScore = 9 / 10,
         loadTime = 120, fillRate = 85 / 100, priority = 1, paymentThreshold = 100\<rparr>),
      (''propellerads'', \<lparr>name = ''PropellerAds'', enabled = True, revenueScore = 7 / 10,
         loadTime = 180, fillRate = 75 / 100, priority = 2, paymentThreshold = 50\<rparr>),
      (''adsterra'', \<lparr>name = ''Adsterra'', enabled = True, revenueScore = 65 / 100,
         loadTime = 200, fillRate = 80 / 100, priority = 3, paymentThreshold = 25\<rparr>),
      (''medianet'', \<lparr>name = ''Media.net'', enabled = True, revenueScore = 75 / 100,
         loadTime = 150, fillRate = 78 / 100, priority = 2, paymentThreshold = 100\<rparr>)]"

record perf =
  successRate :: real
  totalRevenue :: real
  requests :: nat
  successes :: nat

text \<open>
  The module-level \<open>revenueMetrics\<close>. Its own \<open>totalRevenue\<close> field is named
  \<open>overallRevenue\<close> here, apart from the per-network field. \<open>networkPerformance\<close> keeps
  the insertion order of its keys. \<open>hourlyRevenue\<close> is only ever set to 0 and is left out.
\<close>

record revenueMetrics =
  overallRevenue :: real
  networkPerformance :: "(string \<times> perf) list"
  bestPerforming :: string


subsection \<open>calculateNetworkScore\<close>




subsection \<open>updatePerformanceMetrics\<close>

definition newPerf :: perf where
  "newPerf = \<lparr>successRate = 8 / 10, totalRevenue = 0, requests = 0, successes = 0\<rparr>"

text \<open>Assignment to an existing key keeps its place; a new key goes to the end.\<close>

fun setPerf :: "string \<Rightarrow> perf \<Rightarrow> (string \<times> perf) list \<Rightarrow> (string \<times> perf) list" where
  "setPerf k p [] = [(k, p)]"
| "setPerf k p ((k', p') # rest) =
     (if k' = k then (k, p) # rest else (k', p') # setPerf k p rest)"

text \<open>
  \<open>networks.reduce((a, b) => perf[a].totalRevenue > perf[b].totalRevenue ? a : b)\<close>
  over the keys, starting from the first key.
\<close>

definition bestOf :: "(string \<times> perf) list \<Rightarrow> string \<Rightarrow> string" where
  "bestOf perfs current =
     (case perfs of
        [] \<Rightarrow> current
      | (k, p) # rest \<Rightarrow>
          fst (foldl (\<lambda>a b. if totalRevenue (snd a) > totalRevenue (snd b) then a else b)
                 (k, p) rest))"

definition updatePerformanceMetrics ::
    "string \<Rightarrow> bool \<Rightarrow> real \<Rightarrow> revenueMetrics \<Rightarrow> revenueMetrics" where
  "updatePerformanceMetrics networkKey ok revenue m =
     (let old = (case map_of (networkPerformance m) networkKey of
                   None \<Rightarrow> newPerf
                 | Some p \<Rightarrow> p);
          counted = old\<lparr>requests := requests old + 1\<rparr>;
          paid = (if ok
                  then counted\<lparr>successes := successes counted + 1,
                               totalRevenue := totalRevenue counted + revenue\<rparr>
                  else counted);
          rated = paid\<lparr>successRate := real (successes paid) / real (requests paid)\<rparr>;
          perfs = setPerf networkKey rated (networkPerformance m)
      in \<lparr>overallRevenue = (if ok then overallRevenue m + revenue else overallRevenue m),
          networkPerformance = perfs,
          bestPerforming = bestOf perfs (bestPerforming m)\<rparr>)"

subsection \<open>Adapters\<close>

text \<open>
  The ad an adapter returns. The markup string \<open>html\<close> is not modelled: it is a fixed
  template into which the adapters paste environment values (an absent value prints as
  \<open>undefined\<close>), and nothing else reads them. \<open>estimatedRevenue\<close> may be absent.
\<close>

record ad =
  success :: bool
  network :: string
  adRevenueScore :: real
  adLoadTime :: real
  estimatedRevenue :: "real option"

text \<open>What a call of \<open>generateAd\<close> does: it throws, or returns \<open>null\<close> or an ad.\<close>

datatype adOutcome = AdThrows | AdReturns "ad option"

text \<open>
  The adapters pick their unit with \<open>adUnits[type] || adUnits.banner\<close>. The lookup also
  finds the members every object inherits from \<open>Object.prototype\<close>; such a value is truthy
  and has none of the unit's fields, so \<open>estimatedRevenue\<close> is then absent.
\<close>

definition objectPrototypeMembers :: "string list" where
  "objectPrototypeMembers =
     [''constructor'', ''hasOwnProperty'', ''isPrototypeOf'', ''propertyIsEnumerable'',
      ''toLocaleString'', ''toString'', ''valueOf'', ''__proto__'',
      ''__defineGetter__'', ''__defineSetter__'', ''__lookupGetter__'', ''__lookupSetter__'']"

record adUnit =
  client :: "string option"
  slot :: string
  unitRevenue :: real

text \<open>\<open>None\<close> is an inherited member in place of a unit.\<close>

definition adsenseUnit :: "env \<Rightarrow> string \<Rightarrow> adUnit option" where
  "adsenseUnit e type =
     (if type = ''banner''
        then Some \<lparr>client = GOOGLE_ADSENSE_CLIENT e, slot = ''1234567890'', unitRevenue = 8 / 10\<rparr>
      else if type = ''incontent''
        then Some \<lparr>client = GOOGLE_ADSENSE_CLIENT e, slot = ''0987654321'', unitRevenue = 12 / 10\<rparr>
      else if type = ''sidebar''
        then Some \<lparr>client = GOOGLE_ADSENSE_CLIENT e, slot = ''1357924680'', unitRevenue = 5 / 10\<rparr>
      else if type \<in> set objectPrototypeMembers then None
      else Some \<lparr>client = GOOGLE_ADSENSE_CLIENT e, slot = ''1234567890'', unitRevenue = 8 / 10\<rparr>)"

text \<open>
  Each adapter reads \<open>AD_NETWORKS.<key>.revenueScore\<close> and \<open>.loadTime\<close>; the read throws
  when the table has no such key.
\<close>

definition adsenseAdapter :: "networks \<Rightarrow> env \<Rightarrow> string \<Rightarrow> adOutcome" where
  "adsenseAdapter nets e type =
     (let unit = adsenseUnit e type
      in case map_of nets ''adsense'' of
           None \<Rightarrow> AdThrows
         | Some config \<Rightarrow>
             AdReturns (Some \<lparr>success = True, network = ''adsense'',
               adRevenueScore = revenueScore config, adLoadTime = loadTime config,
               estimatedRevenue = map_option unitRevenue unit\<rparr>))"







definition getFallbackAd :: ad where
  "getFallbackAd =
     \<lparr>success = True, network = ''fallback'', adRevenueScore = 3 / 10, adLoadTime = 100,
      estimatedRevenue = Some 0\<rparr>"

subsection \<open>getRevenueOptimizedAd\<close>

text \<open>\<open>ad.estimatedRevenue || 0\<close>\<close>

definition revenueOrZero :: "ad \<Rightarrow> real" where
  "revenueOrZero a = (case estimatedRevenue a of None \<Rightarrow> 0 | Some r \<Rightarrow> r)"

text \<open>
  The attempt loop over the ranked networks, for any behaviour \<open>gen\<close> of \<open>generateAd\<close>.
  It returns the ad, the metrics after the loop, and the keys it called \<open>gen\<close> on, in
  order.
\<close>

fun tryNetworks ::
    "(string \<Rightarrow> adOutcome) \<Rightarrow> networks \<Rightarrow> revenueMetrics \<Rightarrow> ad \<times> revenueMetrics \<times> string list" where
  "tryNetworks gen [] m = (getFallbackAd, m, [])"
| "tryNetworks gen ((networkKey, config) # rest) m =
     (case gen networkKey of
        AdThrows \<Rightarrow>
          (case tryNetworks gen rest (updatePerformanceMetrics networkKey False 0 m) of
             (a, m', tried) \<Rightarrow> (a, m', networkKey # tried))
      | AdReturns None \<Rightarrow>
          (case tryNetworks gen rest m of (a, m', tried) \<Rightarrow> (a, m', networkKey # tried))
      | AdReturns (Some a) \<Rightarrow>
          if success a
          then (a, updatePerformanceMetrics networkKey True (revenueOrZero a) m, [networkKey])
          else (case tryNetworks gen rest m of
                  (a', m', tried) \<Rightarrow> (a', m', networkKey # tried)))"


subsection \<open>The requests the process serves\<close>




section \<open>The classification rules in the specification's words\<close>

text \<open>The set of keywords of a list that occur in a text: the specification counts these.\<close>

definition keywordMatches :: "string list \<Rightarrow> string \<Rightarrow> string set" where
  "keywordMatches kws c = {k \<in> set kws. strIncludes c k}"


text \<open>
  The number of occurrences of a word in a text (the places where it starts), and the
  number of occurrences of all words of a list.
\<close>

fun occurrences :: "string \<Rightarrow> string \<Rightarrow> nat" where
  "occurrences [] w = 0"
| "occurrences (c # cs) w = (if startsWith (c # cs) w then 1 else 0) + occurrences cs w"

definition wordOccurrences :: "string list \<Rightarrow> string \<Rightarrow> nat" where
  "wordOccurrences ws c = sum_list (map (occurrences c) ws)"

text \<open>The title contains a breaking-news keyword (letter case ignored).\<close>

definition titleHasBreaking :: "article \<Rightarrow> bool" where
  "titleHasBreaking a = (\<exists>k \<in> set breakingKeywords. strIncludes (toLowerCase (title a)) k)"


section \<open>The merge contract in the specification's words\<close>

text \<open>The items a settled adapter contributes, and whether an item has an identity.\<close>

definition itemsOf :: "settled \<Rightarrow> article list" where
  "itemsOf r = (case r of Fulfilled (Items xs) \<Rightarrow> xs | _ \<Rightarrow> [])"

definition hasUrl :: "'a article_scheme \<Rightarrow> bool" where
  "hasUrl a = truthy (url a)"

text \<open>Keep the first item of every identity, in the order of first appearance.\<close>

fun keepFirst :: "article list \<Rightarrow> article list" where
  "keepFirst [] = []"
| "keepFirst (a # as) = a # keepFirst (filter (\<lambda>b. url b \<noteq> url a) as)"

text \<open>A source result with its identity-less items removed beforehand.\<close>

definition dropUrlless :: "settled \<Rightarrow> settled" where
  "dropUrlless r =
     (case r of Fulfilled (Items xs) \<Rightarrow> Fulfilled (Items (filter hasUrl xs)) | _ \<Rightarrow> r)"

section \<open>Performance records\<close>



section \<open>Concrete inputs\<close>

definition fedEarnings :: article where
  "fedEarnings = \<lparr>title = ''Fed signals pause'', description = Some ''Earnings ahead'',
     url = Some ''https://a.example/1'', sourceName = ''A'', publishedAt = 0\<rparr>"

definition earningsOnly :: article where
  "earningsOnly = \<lparr>title = ''Earnings'', description = None,
     url = Some ''https://a.example/2'', sourceName = ''A'', publishedAt = 0\<rparr>"

definition noKeywords :: article where
  "noKeywords = \<lparr>title = ''Hello world'', description = Some '''',
     url = Some ''https://a.example/3'', sourceName = ''A'', publishedAt = 0\<rparr>"


definition threePositive :: article where
  "threePositive = \<lparr>title = ''Stocks GAIN as prices rise'', description = Some ''A late surge'',
     url = Some ''https://a.example/4'', sourceName = ''A'', publishedAt = 0\<rparr>"

definition onePositiveOneNegative :: article where
  "onePositiveOneNegative = \<lparr>title = ''Shares gain then fall'', description = None,
     url = Some ''https://a.example/5'', sourceName = ''A'', publishedAt = 0\<rparr>"

definition repeatedGain :: article where
  "repeatedGain = \<lparr>title = ''gain gain gain'', description = None,
     url = Some ''https://a.example/6'', sourceName = ''A'', publishedAt = 0\<rparr>"

definition sixHoursOld :: article where
  "sixHoursOld = \<lparr>title = ''Breaking: rates unchanged'', description = None,
     url = Some ''https://a.example/7'', sourceName = ''A'', publishedAt = 1000000000\<rparr>"

definition quietNews :: article where
  "quietNews = \<lparr>title = ''Weekly roundup'', description = None,
     url = Some ''https://a.example/8'', sourceName = ''A'', publishedAt = 1000000000\<rparr>"


text \<open>Environments and upstream answers.\<close>

definition noKeys :: env where
  "noKeys = \<lparr>NEWS_API_KEY = None, ALPHA_VANTAGE_KEY = None, FINNHUB_KEY = Some '''',
     GOOGLE_ADSENSE_CLIENT = None\<rparr>"

definition allKeys :: env where
  "allKeys = \<lparr>NEWS_API_KEY = Some ''k1'', ALPHA_VANTAGE_KEY = Some ''k2'',
     FINNHUB_KEY = Some ''k3'', GOOGLE_ADSENSE_CLIENT = Some ''ca-pub-1''\<rparr>"

definition allDown :: upstream where
  "allDown = \<lparr>newsapi = HttpError, alphavantage = HttpError, finnhub = HttpError\<rparr>"

definition malformedNewsApi :: upstream where
  "malformedNewsApi =
     \<lparr>newsapi = HttpOk (Some \<lparr>body_articles = NotIterable\<rparr>),
      alphavantage = HttpError, finnhub = HttpError\<rparr>"

definition storyA :: article where
  "storyA = \<lparr>title = ''Fed holds'', description = None,
     url = Some ''https://n.example/fed'', sourceName = ''NewsAPI'', publishedAt = 0\<rparr>"

definition storyNoUrl :: article where
  "storyNoUrl = \<lparr>title = ''Untitled wire'', description = None,
     url = None, sourceName = ''NewsAPI'', publishedAt = 0\<rparr>"

definition storyB :: article where
  "storyB = \<lparr>title = ''Oil dips'', description = Some '''',
     url = Some ''https://n.example/oil'', sourceName = ''NewsAPI'', publishedAt = 0\<rparr>"

definition wireFed :: finnhubItem where
  "wireFed = \<lparr>fh_headline = ''Fed holds (wire)'', fh_summary = None,
     fh_url = Some ''https://n.example/fed'', fh_source = ''Finnhub'', fh_datetime = Some 0, fh_related = NoRelated\<rparr>"

definition wireEmptyUrl :: finnhubItem where
  "wireEmptyUrl = \<lparr>fh_headline = ''No link'', fh_summary = None,
     fh_url = Some '''', fh_source = ''Finnhub'', fh_datetime = Some 0, fh_related = NoRelated\<rparr>"

definition wireGold :: finnhubItem where
  "wireGold = \<lparr>fh_headline = ''Gold steady'', fh_summary = None,
     fh_url = Some ''https://n.example/gold'', fh_source = ''Finnhub'', fh_datetime = Some 0, fh_related = NoRelated\<rparr>"

definition overlapping :: upstream where
  "overlapping =
     \<lparr>newsapi = HttpOk (Some \<lparr>body_articles = Items [storyA, storyNoUrl, storyB]\<rparr>),
      alphavantage = HttpError,
      finnhub = HttpOk (Some [wireFed, wireEmptyUrl, wireGold])\<rparr>"

text \<open>The articles the adapter makes of the three items.\<close>

definition fedWireStory :: article where
  "fedWireStory = \<lparr>title = ''Fed holds (wire)'', description = None,
     url = Some ''https://n.example/fed'', sourceName = ''Finnhub'', publishedAt = 0\<rparr>"

definition noLinkStory :: article where
  "noLinkStory = \<lparr>title = ''No link'', description = None,
     url = Some '''', sourceName = ''Finnhub'', publishedAt = 0\<rparr>"

definition goldStory :: article where
  "goldStory = \<lparr>title = ''Gold steady'', description = None,
     url = Some ''https://n.example/gold'', sourceName = ''Finnhub'', publishedAt = 0\<rparr>"

text \<open>Payloads the adapters cannot process, and a Finnhub item without a usable date.\<close>

definition unreadable :: upstream where
  "unreadable =
     \<lparr>newsapi = HttpOk None,
      alphavantage = HttpOk (Some \<lparr>body_feed = FeedNotArray\<rparr>),
      finnhub = HttpOk None\<rparr>"

definition wireNoDate :: finnhubItem where
  "wireNoDate = \<lparr>fh_headline = ''Undated'', fh_summary = None,
     fh_url = Some ''https://n.example/undated'', fh_source = ''Finnhub'', fh_datetime = None, fh_related = NoRelated\<rparr>"

definition wireBadRelated :: finnhubItem where
  "wireBadRelated = \<lparr>fh_headline = ''Tagged'', fh_summary = None,
     fh_url = Some ''https://n.example/tagged'', fh_source = ''Finnhub'', fh_datetime = Some 0,
     fh_related = RelatedNotString\<rparr>"

definition feedBadTickers :: feedItem where
  "feedBadTickers = \<lparr>item_title = ''Rates'', item_summary = None,
     item_url = Some ''https://n.example/rates'', item_source = ''AV'',
     item_time_published = 0, item_ticker_sentiment = TickersNotArray\<rparr>"

definition badItems :: upstream where
  "badItems =
     \<lparr>newsapi = HttpError,
      alphavantage = HttpOk (Some \<lparr>body_feed = Feed [feedBadTickers]\<rparr>),
      finnhub = HttpOk (Some [wireBadRelated])\<rparr>"

definition undated :: upstream where
  "undated =
     \<lparr>newsapi = HttpError, alphavantage = HttpError,
      finnhub = HttpOk (Some [wireGold, wireNoDate])\<rparr>"




section \<open>Keyword classification\<close>

lemma length_filter_card:
  assumes "distinct kws"
  shows "length (filter (strIncludes c) kws) = card (keywordMatches kws c)"
proof -
  have "card (set (filter (strIncludes c) kws)) = length (filter (strIncludes c) kws)"
    using assms by (intro distinct_card) simp
  then show ?thesis by (simp add: keywordMatches_def)
qed

lemma distinct_highImpactKeywords: "distinct highImpactKeywords"
  by (simp add: highImpactKeywords_def)

lemma distinct_mediumImpactKeywords: "distinct mediumImpactKeywords"
  by (simp add: mediumImpactKeywords_def)

lemma distinct_positiveWords: "distinct positiveWords"
  by (simp add: positiveWords_def)

lemma distinct_negativeWords: "distinct negativeWords"
  by (simp add: negativeWords_def)

lemma two_members_filter:
  assumes "x \<in> set kws" "y \<in> set kws" "x \<noteq> y" "P x" "P y"
  shows "2 \<le> length (filter P kws)"
proof -
  have "{x, y} \<subseteq> set (filter P kws)" using assms by simp
  then have "card {x, y} \<le> card (set (filter P kws))"
    by (intro card_mono) simp_all
  also have "\<dots> \<le> length (filter P kws)" by (rule card_length)
  finally show ?thesis using assms(3) by simp
qed

lemma impact_fed_earnings:
  assumes "strIncludes (content a) ''fed''" "strIncludes (content a) ''earnings''"
  shows "analyzeMarketImpact a = High"
proof -
  have "2 \<le> highImpactCount a"
    unfolding highImpactCount_def
    by (rule two_members_filter[of "''fed''" _ "''earnings''"])
       (simp_all add: highImpactKeywords_def assms)
  then show ?thesis by (simp add: analyzeMarketImpact_def)
qed

lemma keywordMatches_filter: "keywordMatches kws c = set (filter (strIncludes c) kws)"
  by (auto simp: keywordMatches_def)

lemma impact_only_earnings:
  assumes "keywordMatches highImpactKeywords (content a) = {''earnings''}"
  shows "analyzeMarketImpact a = Medium"
proof -
  have "card (keywordMatches highImpactKeywords (content a)) = 1"
    using assms by simp
  then have "highImpactCount a = 1"
    by (simp add: highImpactCount_def length_filter_card distinct_highImpactKeywords)
  then show ?thesis by (simp add: analyzeMarketImpact_def)
qed

lemma impact_none:
  assumes "keywordMatches highImpactKeywords (content a) = {}"
    and "keywordMatches mediumImpactKeywords (content a) = {}"
  shows "analyzeMarketImpact a = Low"
proof -
  have "highImpactCount a = 0" "mediumImpactCount a = 0"
    using assms
    by (simp_all add: highImpactCount_def mediumImpactCount_def length_filter_card
        distinct_highImpactKeywords distinct_mediumImpactKeywords)
  then show ?thesis by (simp add: analyzeMarketImpact_def)
qed

text \<open>
  Claim C4. The market impact of an article is \<open>high\<close> when at least two high-impact
  keywords occur in its lowercased title-plus-description, otherwise \<open>medium\<close> when at
  least one high-impact keyword or at least two medium-impact keywords occur, otherwise
  \<open>low\<close>. Content with both "fed" and "earnings" is \<open>high\<close>; content whose only
  high-impact keyword is "earnings" is \<open>medium\<close>; content with no keyword of either
  list is \<open>low\<close>.
\<close>

theorem analyzeMarketImpact_rule:
  "analyzeMarketImpact a =
     (if 2 \<le> card (keywordMatches highImpactKeywords (content a)) then High
      else if 1 \<le> card (keywordMatches highImpactKeywords (content a))
            \<or> 2 \<le> card (keywordMatches mediumImpactKeywords (content a)) then Medium
      else Low)
   \<and> (strIncludes (content a) ''fed'' \<and> strIncludes (content a) ''earnings''
        \<longrightarrow> analyzeMarketImpact a = High)
   \<and> (keywordMatches highImpactKeywords (content a) = {''earnings''}
        \<longrightarrow> analyzeMarketImpact a = Medium)
   \<and> (keywordMatches highImpactKeywords (content a) = {}
        \<and> keywordMatches mediumImpactKeywords (content a) = {}
        \<longrightarrow> analyzeMarketImpact a = Low)"
proof -
  have "analyzeMarketImpact a =
     (if 2 \<le> card (keywordMatches highImpactKeywords (content a)) then High
      else if 1 \<le> card (keywordMatches highImpactKeywords (content a))
            \<or> 2 \<le> card (keywordMatches mediumImpactKeywords (content a)) then Medium
      else Low)"
    by (simp add: analyzeMarketImpact_def highImpactCount_def mediumImpactCount_def
        length_filter_card distinct_highImpactKeywords distinct_mediumImpactKeywords)
  then show ?thesis
    using impact_fed_earnings[of a] impact_only_earnings[of a] impact_none[of a] by blast
qed

lemmas eval_defs = content_def rawContent_def toLowerCase_def lowerChar_def startsWith_def

theorem analyzeMarketImpact_rule_witness:
  "(strIncludes (content fedEarnings) ''fed'' \<and> strIncludes (content fedEarnings) ''earnings'')
   \<and> analyzeMarketImpact fedEarnings = High
   \<and> keywordMatches highImpactKeywords (content earningsOnly) = {''earnings''}
   \<and> analyzeMarketImpact earningsOnly = Medium
   \<and> (keywordMatches highImpactKeywords (content noKeywords) = {}
      \<and> keywordMatches mediumImpactKeywords (content noKeywords) = {})
   \<and> analyzeMarketImpact noKeywords = Low"
proof -
  have h1: "strIncludes (content fedEarnings) ''fed'' \<and> strIncludes (content fedEarnings) ''earnings''"
    by (simp add: fedEarnings_def eval_defs)
  have h2: "keywordMatches highImpactKeywords (content earningsOnly) = {''earnings''}"
    by (simp add: keywordMatches_filter earningsOnly_def eval_defs highImpactKeywords_def)
  have h3: "keywordMatches highImpactKeywords (content noKeywords) = {}
      \<and> keywordMatches mediumImpactKeywords (content noKeywords) = {}"
    by (simp add: keywordMatches_filter noKeywords_def eval_defs highImpactKeywords_def
        mediumImpactKeywords_def)
  show ?thesis
    using h1 h2 h3 analyzeMarketImpact_rule[of fedEarnings] analyzeMarketImpact_rule[of earningsOnly]
      analyzeMarketImpact_rule[of noKeywords]
    by blast
qed

subsection \<open>Sentiment\<close>

lemma sentimentScore_card:
  "sentimentScore a = int (card (keywordMatches positiveWords (content a)))
                    - int (card (keywordMatches negativeWords (content a)))"
  by (simp add: sentimentScore_def positiveCount_def negativeCount_def
      length_filter_card distinct_positiveWords distinct_negativeWords)

text \<open>
  Claim C5, amended. The sentiment label is decided by the number of positive words of the
  list that occur in the lowercased content minus the number of negative words of the list
  that occur, each word counted once however often it is repeated: at least 2 gives
  \<open>positive\<close>, at most -2 gives \<open>negative\<close>, anything else \<open>neutral\<close>. Content in which
  three different positive words and no negative word occur is \<open>positive\<close>; content in
  which one positive and one negative word occur is \<open>neutral\<close>.
\<close>

theorem analyzeAdvancedSentiment_rule:
  "analyzeAdvancedSentiment a =
     (let score = int (card (keywordMatches positiveWords (content a)))
                - int (card (keywordMatches negativeWords (content a)))
      in if 2 \<le> score then Positive else if score \<le> - 2 then Negative else Neutral)
   \<and> (card (keywordMatches positiveWords (content a)) = 3
        \<and> card (keywordMatches negativeWords (content a)) = 0
        \<longrightarrow> analyzeAdvancedSentiment a = Positive)
   \<and> (card (keywordMatches positiveWords (content a)) = 1
        \<and> card (keywordMatches negativeWords (content a)) = 1
        \<longrightarrow> analyzeAdvancedSentiment a = Neutral)"
  by (simp add: analyzeAdvancedSentiment_def sentimentScore_card Let_def)

theorem analyzeAdvancedSentiment_rule_witness:
  "(card (keywordMatches positiveWords (content threePositive)) = 3
    \<and> card (keywordMatches negativeWords (content threePositive)) = 0)
   \<and> analyzeAdvancedSentiment threePositive = Positive
   \<and> (card (keywordMatches positiveWords (content onePositiveOneNegative)) = 1
    \<and> card (keywordMatches negativeWords (content onePositiveOneNegative)) = 1)
   \<and> analyzeAdvancedSentiment onePositiveOneNegative = Neutral"
proof -
  have h1: "card (keywordMatches positiveWords (content threePositive)) = 3
    \<and> card (keywordMatches negativeWords (content threePositive)) = 0"
    by (simp add: length_filter_card[symmetric] distinct_positiveWords distinct_negativeWords
        positiveWords_def negativeWords_def threePositive_def eval_defs)
  have h2: "card (keywordMatches positiveWords (content onePositiveOneNegative)) = 1
    \<and> card (keywordMatches negativeWords (content onePositiveOneNegative)) = 1"
    by (simp add: length_filter_card[symmetric] distinct_positiveWords distinct_negativeWords
        positiveWords_def negativeWords_def onePositiveOneNegative_def eval_defs)
  show ?thesis
    using h1 h2 analyzeAdvancedSentiment_rule[of threePositive]
      analyzeAdvancedSentiment_rule[of onePositiveOneNegative]
    by blast
qed

lemma occurrences_repeatedGain:
  "wordOccurrences positiveWords (content repeatedGain) = 3"
  "wordOccurrences negativeWords (content repeatedGain) = 0"
  by (simp_all add: wordOccurrences_def positiveWords_def negativeWords_def repeatedGain_def
      eval_defs)

text \<open>
  The claim as stated fails when the three positive-word occurrences are one word three
  times: the code counts it once.
\<close>

theorem repeated_word_counts_once:
  "content repeatedGain = ''gain gain gain ''
   \<and> wordOccurrences positiveWords (content repeatedGain) = 3
   \<and> wordOccurrences negativeWords (content repeatedGain) = 0
   \<and> sentimentScore repeatedGain = 1
   \<and> analyzeAdvancedSentiment repeatedGain = Neutral"
proof -
  have c: "content repeatedGain = ''gain gain gain ''"
    by (simp add: repeatedGain_def eval_defs)
  have s: "sentimentScore repeatedGain = 1"
    by (simp add: sentimentScore_def positiveCount_def negativeCount_def c positiveWords_def
        negativeWords_def startsWith_def)
  have a: "analyzeAdvancedSentiment repeatedGain = Neutral"
    by (simp add: analyzeAdvancedSentiment_def s)
  from c occurrences_repeatedGain s a show ?thesis by (intro conjI)
qed


section \<open>Urgency\<close>

lemma hasBreaking_iff: "hasBreaking a = titleHasBreaking a"
  by (simp add: hasBreaking_def titleHasBreaking_def list_ex_iff)

text \<open>
  Claim C6. For an article published \<open>h\<close> hours before the clock reading, the urgency is
  \<open>max(0, 24 - h) / 24\<close>, plus 0.3 exactly when the title contains a breaking-news
  keyword, capped at 1. Published now without a breaking keyword it is 1; published 24
  hours ago or earlier without a breaking keyword it is 0. The score always lies in the
  interval from 0 to 1.
\<close>

theorem calculateUrgencyScore_formula:
  "(real_of_int (now - publishedAt a) = h * 3600000 \<longrightarrow>
      calculateUrgencyScore now a =
        min 1 (max 0 (24 - h) / 24 + (if titleHasBreaking a then 3 / 10 else 0)))
   \<and> (publishedAt a = now \<and> \<not> titleHasBreaking a \<longrightarrow> calculateUrgencyScore now a = 1)
   \<and> (real_of_int (now - publishedAt a) \<ge> 24 * 3600000 \<and> \<not> titleHasBreaking a
        \<longrightarrow> calculateUrgencyScore now a = 0)
   \<and> 0 \<le> calculateUrgencyScore now a \<and> calculateUrgencyScore now a \<le> 1"
  by (auto simp: calculateUrgencyScore_def hoursDiff_def hasBreaking_iff Let_def max_def min_def)

theorem calculateUrgencyScore_formula_witness:
  "real_of_int (1000000000 + 12 * 3600000 - publishedAt sixHoursOld) = 12 * 3600000
   \<and> calculateUrgencyScore (1000000000 + 12 * 3600000) sixHoursOld = 4 / 5
   \<and> (publishedAt quietNews = 1000000000 \<and> \<not> titleHasBreaking quietNews)
   \<and> calculateUrgencyScore 1000000000 quietNews = 1
   \<and> (real_of_int (1000000000 + 30 * 3600000 - publishedAt quietNews) \<ge> 24 * 3600000
       \<and> \<not> titleHasBreaking quietNews)
   \<and> calculateUrgencyScore (1000000000 + 30 * 3600000) quietNews = 0"
proof -
  have b1: "titleHasBreaking sixHoursOld"
    by (simp add: titleHasBreaking_def breakingKeywords_def sixHoursOld_def eval_defs)
  have b2: "\<not> titleHasBreaking quietNews"
    by (simp add: titleHasBreaking_def breakingKeywords_def quietNews_def eval_defs)
  have p1: "publishedAt sixHoursOld = 1000000000" by (simp add: sixHoursOld_def)
  have p2: "publishedAt quietNews = 1000000000" by (simp add: quietNews_def)
  show ?thesis
    using b1 b2 p1 p2
      calculateUrgencyScore_formula[of "1000000000 + 12 * 3600000" sixHoursOld 12]
      calculateUrgencyScore_formula[of 1000000000 quietNews 0]
      calculateUrgencyScore_formula[of "1000000000 + 30 * 3600000" quietNews 30]
    by simp
qed


section \<open>Merge and deduplication\<close>

lemma keepFirst_subset: "set (keepFirst xs) \<subseteq> set xs"
  by (induction xs rule: keepFirst.induct) auto

lemma keepFirst_distinct: "distinct (map url (keepFirst xs))"
proof (induction xs rule: keepFirst.induct)
  case 1
  then show ?case by simp
next
  case (2 a as)
  have "url a \<notin> url ` set (keepFirst (filter (\<lambda>b. url b \<noteq> url a) as))"
    using keepFirst_subset[of "filter (\<lambda>b. url b \<noteq> url a) as"] by auto
  with 2 show ?case by simp
qed

lemma keepFirst_subseq: "subseq (keepFirst xs) xs"
proof (induction xs rule: keepFirst.induct)
  case 1
  then show ?case by simp
next
  case (2 a as)
  have "subseq (filter (\<lambda>b. url b \<noteq> url a) as) as" by simp
  with 2 have "subseq (keepFirst (filter (\<lambda>b. url b \<noteq> url a) as)) as"
    using subseq_order.order_trans by blast
  then show ?case by simp
qed

lemma keepFirst_find:
  "find (\<lambda>b. url b = u) (keepFirst xs) = find (\<lambda>b. url b = u) xs"
proof (induction xs rule: keepFirst.induct)
  case 1
  then show ?case by simp
next
  case (2 a as)
  show ?case
  proof (cases "url a = u")
    case True
    then show ?thesis by simp
  next
    case False
    have "find (\<lambda>b. url b = u) (filter (\<lambda>b. url b \<noteq> url a) as) = find (\<lambda>b. url b = u) as"
      using False by (induction as) auto
    with 2 False show ?thesis by simp
  qed
qed

lemma fold_visitArticle:
  "fold visitArticle xs (acc, S) =
     (acc @ keepFirst (filter (\<lambda>a. hasUrl a \<and> url a \<notin> Some ` S) xs),
      S \<union> {u. u \<noteq> [] \<and> Some u \<in> url ` set xs})"
proof (induction xs arbitrary: acc S)
  case Nil
  then show ?case by simp
next
  case (Cons a xs)
  show ?case
  proof (cases "hasUrl a \<and> url a \<notin> Some ` S")
    case True
    then obtain u where u: "url a = Some u" "u \<noteq> []" "u \<notin> S"
      by (auto simp: hasUrl_def truthy_def split: option.splits)
    have step: "visitArticle a (acc, S) = (acc @ [a], insert u S)"
      using u by (simp add: visitArticle_def)
    have flt: "filter (\<lambda>b. url b \<noteq> url a) (filter (\<lambda>a. hasUrl a \<and> url a \<notin> Some ` S) xs)
             = filter (\<lambda>a. hasUrl a \<and> url a \<notin> Some ` insert u S) xs"
      using u by (auto intro: filter_cong)
    have sets: "insert u S \<union> {v. v \<noteq> [] \<and> Some v \<in> url ` set xs}
              = S \<union> {v. v \<noteq> [] \<and> Some v \<in> url ` set (a # xs)}"
      using u by auto
    have "fold visitArticle (a # xs) (acc, S) = fold visitArticle xs (acc @ [a], insert u S)"
      by (simp add: step)
    also have "\<dots> = ((acc @ [a]) @ keepFirst (filter (\<lambda>a. hasUrl a \<and> url a \<notin> Some ` insert u S) xs),
                      insert u S \<union> {v. v \<noteq> [] \<and> Some v \<in> url ` set xs})"
      by (rule Cons.IH)
    also have "(acc @ [a]) @ keepFirst (filter (\<lambda>a. hasUrl a \<and> url a \<notin> Some ` insert u S) xs)
             = acc @ keepFirst (filter (\<lambda>a. hasUrl a \<and> url a \<notin> Some ` S) (a # xs))"
    proof -
      have f1: "filter (\<lambda>a. hasUrl a \<and> url a \<notin> Some ` S) (a # xs)
              = a # filter (\<lambda>a. hasUrl a \<and> url a \<notin> Some ` S) xs"
        using True by simp
      have "keepFirst (filter (\<lambda>a. hasUrl a \<and> url a \<notin> Some ` S) (a # xs))
          = a # keepFirst (filter (\<lambda>b. url b \<noteq> url a)
                (filter (\<lambda>a. hasUrl a \<and> url a \<notin> Some ` S) xs))"
        by (simp only: f1 keepFirst.simps)
      also have "\<dots> = a # keepFirst (filter (\<lambda>a. hasUrl a \<and> url a \<notin> Some ` insert u S) xs)"
        by (simp only: flt)
      finally show ?thesis by simp
    qed
    finally show ?thesis by (simp only: sets)
  next
    case False
    then have step: "visitArticle a (acc, S) = (acc, S)"
      by (auto simp: visitArticle_def hasUrl_def truthy_def split: option.splits)
    have sets: "S \<union> {v. v \<noteq> [] \<and> Some v \<in> url ` set xs}
              = S \<union> {v. v \<noteq> [] \<and> Some v \<in> url ` set (a # xs)}"
      using False by (auto simp: hasUrl_def truthy_def split: option.splits)
    have f2: "filter (\<lambda>a. hasUrl a \<and> url a \<notin> Some ` S) (a # xs)
            = filter (\<lambda>a. hasUrl a \<and> url a \<notin> Some ` S) xs"
      using False by auto
    have "fold visitArticle (a # xs) (acc, S) = fold visitArticle xs (acc, S)"
      by (simp add: step)
    also have "\<dots> = (acc @ keepFirst (filter (\<lambda>a. hasUrl a \<and> url a \<notin> Some ` S) xs),
                      S \<union> {v. v \<noteq> [] \<and> Some v \<in> url ` set xs})"
      by (rule Cons.IH)
    finally show ?thesis by (simp only: f2 sets)
  qed
qed

lemma mergeResults_fold:
  "mergeResults rs st = Some st' \<Longrightarrow> st' = fold visitArticle (concat (map itemsOf rs)) st"
proof (induction rs arbitrary: st)
  case Nil
  then show ?case by simp
next
  case (Cons r rs)
  show ?case
  proof (cases r)
    case (Fulfilled v)
    then show ?thesis using Cons by (cases v) (auto simp: itemsOf_def)
  next
    case Rejected
    then show ?thesis using Cons by (auto simp: itemsOf_def)
  qed
qed

lemma mergeResults_None: "mergeResults rs st = None \<longleftrightarrow> Fulfilled NotIterable \<in> set rs"
proof (induction rs arbitrary: st)
  case Nil
  then show ?case by simp
next
  case (Cons r rs)
  show ?case
  proof (cases r)
    case (Fulfilled v)
    then show ?thesis using Cons by (cases v) auto
  next
    case Rejected
    then show ?thesis using Cons by auto
  qed
qed

lemma mergeResults_spec:
  assumes "mergeResults rs ([], {}) = Some (allArticles, seen)"
  shows "allArticles = keepFirst (filter hasUrl (concat (map itemsOf rs)))"
  using mergeResults_fold[OF assms] by (simp add: fold_visitArticle)


section \<open>The news response\<close>

lemma url_analyze: "url (analyze now a) = url a"
  by (simp add: analyze_def)

lemma hasUrl_analyze: "hasUrl (analyze now a) = hasUrl a"
  by (simp add: hasUrl_def url_analyze)

lemma distinct_map_sort_key: "distinct (map f (sort_key k xs)) = distinct (map f xs)"
  by (simp add: distinct_map)

lemma distinct_map_sliceTo: "distinct (map f xs) \<Longrightarrow> distinct (map f (sliceTo xs n))"
  by (simp add: sliceTo_def take_map[symmetric])

lemma set_sliceTo: "set (sliceTo xs n) \<subseteq> set xs"
  by (auto simp: sliceTo_def dest: in_set_takeD)

lemma error_getFallbackNews: "error (getFallbackNews now) \<noteq> None"
  by (simp add: getFallbackNews_def)

lemma aggregate_Some:
  assumes "aggregate pageSize now results = Some r"
  shows "\<exists>allArticles seen. mergeResults results ([], {}) = Some (allArticles, seen)
           \<and> articles r = rankArticles (map (analyze now) (sliceTo allArticles pageSize))
           \<and> error r = None \<and> statusCode r = 200"
  using assms by (auto simp: aggregate_def Let_def split: option.splits)

lemma handler_cases:
  "handler e up fourth pageSize now = getFallbackNews now
   \<or> (\<exists>r4. fourth = Settles r4 \<and> aggregate pageSize now (newsResults e up r4)
             = Some (handler e up fourth pageSize now))"
  by (auto simp: handler_def split: adapterCall.splits option.splits)

lemma aggregate_distinct:
  assumes "aggregate pageSize now results = Some r"
  shows "distinct (map url (articles r))"
proof -
  obtain allArticles seen where m: "mergeResults results ([], {}) = Some (allArticles, seen)"
    and a: "articles r = rankArticles (map (analyze now) (sliceTo allArticles pageSize))"
    using aggregate_Some[OF assms] by blast
  have "distinct (map url allArticles)"
    using mergeResults_spec[OF m] keepFirst_distinct by simp
  then have "distinct (map url (sliceTo allArticles pageSize))"
    by (rule distinct_map_sliceTo)
  moreover have "map url (map (analyze now) xs) = map url xs" for xs
    by (simp add: url_analyze)
  ultimately show ?thesis
    by (simp only: a rankArticles_def distinct_map_sort_key)
qed

lemma aggregate_hasUrl:
  assumes "aggregate pageSize now results = Some r"
  shows "list_all hasUrl (articles r)"
proof -
  obtain allArticles seen where m: "mergeResults results ([], {}) = Some (allArticles, seen)"
    and a: "articles r = rankArticles (map (analyze now) (sliceTo allArticles pageSize))"
    using aggregate_Some[OF assms] by blast
  have "set allArticles \<subseteq> {a. hasUrl a}"
    using mergeResults_spec[OF m] keepFirst_subset[of "filter hasUrl (concat (map itemsOf results))"]
    by auto
  then have "\<forall>x \<in> set (sliceTo allArticles pageSize). hasUrl x"
    using set_sliceTo[of allArticles pageSize] by blast
  then show ?thesis
    by (simp add: a rankArticles_def list_all_iff hasUrl_analyze)
qed


subsection \<open>Identity uniqueness\<close>

lemma handler_error_None_iff:
  "error (handler e up fourth pageSize now) = None
   \<longleftrightarrow> (\<exists>r4. fourth = Settles r4 \<and> Fulfilled NotIterable \<notin> set (newsResults e up r4))"
proof (cases fourth)
  case CallThrows
  then show ?thesis by (simp add: handler_def getFallbackNews_def)
next
  case (Settles r4)
  show ?thesis
  proof (cases "mergeResults (newsResults e up r4) ([], {})")
    case None
    then show ?thesis
      using Settles mergeResults_None[of "newsResults e up r4" "([], {})"]
      by (simp add: handler_def aggregate_def getFallbackNews_def)
  next
    case (Some st)
    then show ?thesis
      using Settles mergeResults_None[of "newsResults e up r4" "([], {})"]
      by (cases st) (simp add: handler_def aggregate_def Let_def)
  qed
qed

lemma handler_distinct:
  assumes "error (handler e up fourth pageSize now) = None"
  shows "distinct (map url (articles (handler e up fourth pageSize now)))"
  using assms handler_cases[of e up fourth pageSize now] aggregate_distinct error_getFallbackNews
  by metis

lemma handler_hasUrl:
  assumes "error (handler e up fourth pageSize now) = None"
  shows "list_all hasUrl (articles (handler e up fourth pageSize now))"
  using assms handler_cases[of e up fourth pageSize now] aggregate_hasUrl error_getFallbackNews
  by metis

text \<open>
  Claim C2, amended. Whenever the news handler answers from the aggregation (the response
  carries no \<open>error\<close> field), no two returned articles have the same url. The merge
  step keeps, for every url, the first item in adapter configuration order and drops the
  later ones, and its output preserves the order of first appearance: it is a subsequence
  of the incoming items. (The fallback payload is outside this: its two fixed articles
  share the url "#".)
\<close>

theorem merge_keeps_first_per_url:
  "(error (handler e up fourth pageSize now) = None
      \<longrightarrow> distinct (map url (articles (handler e up fourth pageSize now))))
   \<and> (mergeResults results ([], {}) = Some (allArticles, seen)
      \<longrightarrow> allArticles = keepFirst (filter hasUrl (concat (map itemsOf results)))
        \<and> distinct (map url allArticles)
        \<and> subseq allArticles (concat (map itemsOf results))
        \<and> (\<forall>u. find (\<lambda>b. url b = u) allArticles
                = find (\<lambda>b. url b = u) (filter hasUrl (concat (map itemsOf results)))))"
proof (intro conjI impI)
  assume "error (handler e up fourth pageSize now) = None"
  then show "distinct (map url (articles (handler e up fourth pageSize now)))"
    by (rule handler_distinct)
next
  assume m: "mergeResults results ([], {}) = Some (allArticles, seen)"
  show eq: "allArticles = keepFirst (filter hasUrl (concat (map itemsOf results)))"
    by (rule mergeResults_spec[OF m])
  show "distinct (map url allArticles)"
    by (simp only: eq keepFirst_distinct)
  have "subseq allArticles (filter hasUrl (concat (map itemsOf results)))"
    by (simp only: eq keepFirst_subseq)
  moreover have "subseq (filter hasUrl (concat (map itemsOf results))) (concat (map itemsOf results))"
    by simp
  ultimately show "subseq allArticles (concat (map itemsOf results))"
    using subseq_order.order_trans by blast
  show "\<forall>u. find (\<lambda>b. url b = u) allArticles
                = find (\<lambda>b. url b = u) (filter hasUrl (concat (map itemsOf results)))"
    by (simp only: eq keepFirst_find) simp
qed

lemmas news_eval_defs = newsResults_def fetchNewsAPI_def fetchAlphaVantageNews_def
  fetchFinnhubMarketNews_def newsApiTry_def alphaVantageTry_def finnhubTry_def settle_def
  truthy_def orEmpty_def finnhubToArticle_def finnhubTime_def

lemma overlapping_finnhub:
  "finnhubTry overlapping = Returned (Items [fedWireStory, noLinkStory, goldStory])"
  by (simp add: finnhubTry_def overlapping_def finnhubToArticle_def finnhubTime_def
      wireFed_def wireEmptyUrl_def wireGold_def fedWireStory_def noLinkStory_def goldStory_def)

lemma overlapping_results:
  "newsResults allKeys overlapping (Fulfilled (Items []))
   = [Fulfilled (Items [storyA, storyNoUrl, storyB]), Fulfilled (Items []),
      Fulfilled (Items [fedWireStory, noLinkStory, goldStory]),
      Fulfilled (Items [])]"
  by (simp add: newsResults_def fetchNewsAPI_def fetchAlphaVantageNews_def
      fetchFinnhubMarketNews_def newsApiTry_def alphaVantageTry_def settle_def truthy_def
      orEmpty_def overlapping_finnhub allKeys_def)
     (simp add: overlapping_def orEmpty_def)

lemma overlapping_merge:
  "mergeResults (newsResults allKeys overlapping (Fulfilled (Items []))) ([], {})
   = Some ([storyA, storyB, goldStory],
           {''https://n.example/gold'', ''https://n.example/oil'', ''https://n.example/fed''})"
  by (simp add: overlapping_results visitArticle_def storyA_def storyB_def
      storyNoUrl_def fedWireStory_def noLinkStory_def goldStory_def)

theorem merge_keeps_first_per_url_witness:
  "error (handler allKeys overlapping (Settles (Fulfilled (Items []))) 15 0) = None
   \<and> distinct (map url (articles (handler allKeys overlapping (Settles (Fulfilled (Items []))) 15 0)))
   \<and> mergeResults (newsResults allKeys overlapping (Fulfilled (Items []))) ([], {})
       = Some ([storyA, storyB, goldStory],
           {''https://n.example/gold'', ''https://n.example/oil'', ''https://n.example/fed''})
   \<and> [storyA, storyB, goldStory]
       = keepFirst (filter hasUrl
           (concat (map itemsOf (newsResults allKeys overlapping (Fulfilled (Items []))))))
   \<and> distinct (map url [storyA, storyB, goldStory])
   \<and> subseq [storyA, storyB, goldStory]
        (concat (map itemsOf (newsResults allKeys overlapping (Fulfilled (Items [])))))"
proof -
  have h1: "error (handler allKeys overlapping (Settles (Fulfilled (Items []))) 15 0) = None"
    by (simp add: handler_error_None_iff overlapping_results)
  show ?thesis
    using h1 overlapping_merge
      merge_keeps_first_per_url[of allKeys overlapping "Settles (Fulfilled (Items []))" 15 0
        "newsResults allKeys overlapping (Fulfilled (Items []))"
        "[storyA, storyB, goldStory]"
        "{''https://n.example/gold'', ''https://n.example/oil'', ''https://n.example/fed''}"]
    by blast
qed

text \<open>
  The claim as stated, for every request, fails on a request that is answered by the
  fallback payload: a NewsAPI answer whose \<open>articles\<close> is not an array makes the merge
  throw.
\<close>

theorem fallback_articles_share_url:
  "error (handler allKeys malformedNewsApi (Settles (Fulfilled (Items []))) 15 0)
     = Some ''Using fallback news data''
   \<and> map url (articles (handler allKeys malformedNewsApi (Settles (Fulfilled (Items []))) 15 0))
     = [Some ''#'', Some ''#'']
   \<and> \<not> distinct (map url (articles (handler allKeys malformedNewsApi (Settles (Fulfilled (Items []))) 15 0)))"
proof -
  have "newsResults allKeys malformedNewsApi (Fulfilled (Items []))
        = [Fulfilled NotIterable, Fulfilled (Items []), Fulfilled (Items []), Fulfilled (Items [])]"
    by (simp add: news_eval_defs allKeys_def malformedNewsApi_def)
  then have "handler allKeys malformedNewsApi (Settles (Fulfilled (Items []))) 15 0 = getFallbackNews 0"
    by (simp add: handler_def aggregate_def)
  then show ?thesis
    by (simp add: getFallbackNews_def fallbackArticles_def)
qed


subsection \<open>Items without a url\<close>

lemma itemsOf_dropUrlless: "itemsOf (dropUrlless r) = filter hasUrl (itemsOf r)"
proof (cases r)
  case (Fulfilled v)
  then show ?thesis by (cases v) (simp_all add: itemsOf_def dropUrlless_def)
next
  case Rejected
  then show ?thesis by (simp add: itemsOf_def dropUrlless_def)
qed

lemma isFulfilled_dropUrlless: "isFulfilled (dropUrlless r) = isFulfilled r"
proof (cases r)
  case (Fulfilled v)
  then show ?thesis by (cases v) (simp_all add: isFulfilled_def dropUrlless_def)
next
  case Rejected
  then show ?thesis by (simp add: isFulfilled_def dropUrlless_def)
qed

lemma dropUrlless_NotIterable:
  "(dropUrlless r = Fulfilled NotIterable) = (r = Fulfilled NotIterable)"
proof (cases r)
  case (Fulfilled v)
  then show ?thesis by (cases v) (simp_all add: dropUrlless_def)
next
  case Rejected
  then show ?thesis by (simp add: dropUrlless_def)
qed

lemma NotIterable_dropUrlless:
  "Fulfilled NotIterable \<in> set (map dropUrlless rs) \<longleftrightarrow> Fulfilled NotIterable \<in> set rs"
proof (induction rs)
  case Nil
  then show ?case by simp
next
  case (Cons r rs)
  have "(Fulfilled NotIterable = dropUrlless r) = (Fulfilled NotIterable = r)"
    using dropUrlless_NotIterable[of r] by (simp only: eq_commute[of "Fulfilled NotIterable"])
  with Cons show ?case by simp
qed

lemma concat_filter_items:
  "concat (map itemsOf (map dropUrlless rs)) = filter hasUrl (concat (map itemsOf rs))"
  by (induction rs) (simp_all add: itemsOf_dropUrlless)

lemma visitArticle_no_url: "\<not> hasUrl a \<Longrightarrow> visitArticle a st = st"
  by (cases st) (auto simp: visitArticle_def hasUrl_def truthy_def split: option.splits)

lemma fold_visitArticle_filter:
  "fold visitArticle (filter hasUrl xs) st = fold visitArticle xs st"
  by (induction xs arbitrary: st) (simp_all add: visitArticle_no_url)

lemma mergeResults_dropUrlless:
  "mergeResults (map dropUrlless rs) ([], {}) = mergeResults rs ([], {})"
proof (cases "mergeResults rs ([], {})")
  case None
  then show ?thesis
    using mergeResults_None[of rs "([], {})"] mergeResults_None[of "map dropUrlless rs" "([], {})"]
      NotIterable_dropUrlless[of rs] by simp
next
  case (Some st)
  then have n: "Fulfilled NotIterable \<notin> set rs"
    using mergeResults_None[of rs "([], {})"] by auto
  then obtain st' where s': "mergeResults (map dropUrlless rs) ([], {}) = Some st'"
    using mergeResults_None[of "map dropUrlless rs" "([], {})"] NotIterable_dropUrlless[of rs]
    by (cases "mergeResults (map dropUrlless rs) ([], {})") auto
  have "st' = fold visitArticle (concat (map itemsOf (map dropUrlless rs))) ([], {})"
    by (rule mergeResults_fold[OF s'])
  also have "\<dots> = fold visitArticle (filter hasUrl (concat (map itemsOf rs))) ([], {})"
    by (simp only: concat_filter_items)
  also have "\<dots> = fold visitArticle (concat (map itemsOf rs)) ([], {})"
    by (rule fold_visitArticle_filter)
  also have "\<dots> = st"
    using mergeResults_fold[OF Some] by simp
  finally show ?thesis using Some s' by simp
qed

lemma sourcesUsed_dropUrlless:
  "map isFulfilled (map dropUrlless results) = map isFulfilled results"
  by (induction results) (simp_all add: isFulfilled_dropUrlless)

lemma aggregate_dropUrlless:
  "aggregate pageSize now (map dropUrlless results) = aggregate pageSize now results"
  by (simp only: aggregate_def mergeResults_dropUrlless sourcesUsed_dropUrlless)

text \<open>
  Claim C10. Every article of a response that is not the fallback payload (no \<open>error\<close>
  field) has a non-empty url. An item whose url is absent or empty never enters the merged
  list, and it does not count toward the page size: removing such items from the adapters'
  results beforehand leaves the whole response unchanged.
\<close>

theorem returned_articles_have_url:
  "(error (handler e up fourth pageSize now) = None
      \<longrightarrow> list_all hasUrl (articles (handler e up fourth pageSize now)))
   \<and> (mergeResults results ([], {}) = Some (allArticles, seen) \<longrightarrow> list_all hasUrl allArticles)
   \<and> aggregate pageSize now (map dropUrlless results) = aggregate pageSize now results"
proof (intro conjI impI)
  assume "error (handler e up fourth pageSize now) = None"
  then show "list_all hasUrl (articles (handler e up fourth pageSize now))"
    by (rule handler_hasUrl)
next
  assume m: "mergeResults results ([], {}) = Some (allArticles, seen)"
  have "set (keepFirst (filter hasUrl (concat (map itemsOf results))))
        \<subseteq> set (filter hasUrl (concat (map itemsOf results)))"
    by (rule keepFirst_subset)
  then show "list_all hasUrl allArticles"
    by (auto simp: mergeResults_spec[OF m] list_all_iff)
next
  show "aggregate pageSize now (map dropUrlless results) = aggregate pageSize now results"
    by (rule aggregate_dropUrlless)
qed

theorem returned_articles_have_url_witness:
  "error (handler allKeys overlapping (Settles (Fulfilled (Items [storyNoUrl]))) 2 0) = None
   \<and> list_all hasUrl (articles (handler allKeys overlapping (Settles (Fulfilled (Items [storyNoUrl]))) 2 0))
   \<and> mergeResults [Fulfilled (Items [storyNoUrl, storyA]), Rejected] ([], {})
       = Some ([storyA], {''https://n.example/fed''})
   \<and> list_all hasUrl [storyA]"
proof -
  have r: "newsResults allKeys overlapping (Fulfilled (Items [storyNoUrl]))
   = [Fulfilled (Items [storyA, storyNoUrl, storyB]), Fulfilled (Items []),
      Fulfilled (Items [fedWireStory, noLinkStory, goldStory]),
      Fulfilled (Items [storyNoUrl])]"
    by (simp add: newsResults_def fetchNewsAPI_def fetchAlphaVantageNews_def
        fetchFinnhubMarketNews_def newsApiTry_def alphaVantageTry_def settle_def truthy_def
        orEmpty_def overlapping_finnhub allKeys_def)
       (simp add: overlapping_def orEmpty_def)
  have h1: "error (handler allKeys overlapping (Settles (Fulfilled (Items [storyNoUrl]))) 2 0) = None"
    by (simp add: handler_error_None_iff r)
  have h2: "mergeResults [Fulfilled (Items [storyNoUrl, storyA]), Rejected] ([], {})
       = Some ([storyA], {''https://n.example/fed''})"
    by (simp add: visitArticle_def storyA_def storyNoUrl_def)
  note t = returned_articles_have_url[of allKeys overlapping
      "Settles (Fulfilled (Items [storyNoUrl]))" 2 0
      "[Fulfilled (Items [storyNoUrl, storyA]), Rejected]" "[storyA]" "{''https://n.example/fed''}"]
  from t have "error (handler allKeys overlapping (Settles (Fulfilled (Items [storyNoUrl]))) 2 0) = None
      \<longrightarrow> list_all hasUrl (articles (handler allKeys overlapping (Settles (Fulfilled (Items [storyNoUrl]))) 2 0))"
    by (rule conjunct1)
  with h1 have c1: "list_all hasUrl (articles (handler allKeys overlapping (Settles (Fulfilled (Items [storyNoUrl]))) 2 0))"
    by (rule rev_mp)
  from t have "mergeResults [Fulfilled (Items [storyNoUrl, storyA]), Rejected] ([], {})
       = Some ([storyA], {''https://n.example/fed''}) \<longrightarrow> list_all hasUrl [storyA]"
    by (rule conjunct1[OF conjunct2])
  with h2 have c2: "list_all hasUrl [storyA]"
    by (rule rev_mp)
  from h1 c1 h2 c2 show ?thesis by (intro conjI)
qed


subsection \<open>Total failure of the sources\<close>

lemma statusCode_handler: "statusCode (handler e up fourth pageSize now) = 200"
  using handler_cases[of e up fourth pageSize now] aggregate_Some
  by (auto simp: getFallbackNews_def)

text \<open>
  Claim C1. When every Source Adapter fails, the news handler still answers with HTTP
  200 and the Fallback Provider's fixed payload together with the \<open>error\<close> indicator; it
  returns neither an empty success body nor a 5xx. The handler does so on every request,
  whatever the environment, the upstream answers and the page size are: the call of
  \<open>fetchFallbackFinancialNews\<close> throws inside the \<open>try\<close> block and the \<open>catch\<close> block
  returns \<open>getFallbackNews()\<close>. The status is 200 also for any other behaviour of a fourth
  adapter.
\<close>

theorem exports_handler_returns_fallback:
  "exports_handler e up pageSize now = getFallbackNews now
   \<and> statusCode (exports_handler e up pageSize now) = 200
   \<and> articles (exports_handler e up pageSize now) = fallbackArticles now
   \<and> length (articles (exports_handler e up pageSize now)) = 2
   \<and> error (exports_handler e up pageSize now) = Some ''Using fallback news data''
   \<and> statusCode (handler e up fourth pageSize now) = 200"
proof -
  have h: "exports_handler e up pageSize now = getFallbackNews now"
    by (simp add: exports_handler_def fetchFallbackFinancialNews_def handler_def)
  show ?thesis
    by (simp add: h statusCode_handler) (simp add: getFallbackNews_def fallbackArticles_def)
qed


section \<open>Adapters and failure\<close>

lemma those_None_iff: "those (map f xs) = None \<longleftrightarrow> (\<exists>x \<in> set xs. f x = None)"
  by (induction xs) (auto split: option.splits)

lemma finnhubToArticle_None:
  "finnhubToArticle item = None
     \<longleftrightarrow> finnhubTime item = None \<or> fh_related item = RelatedNotString"
  by (simp add: finnhubToArticle_def split: option.splits)

lemma feedToArticle_None:
  "feedToArticle item = None \<longleftrightarrow> item_ticker_sentiment item = TickersNotArray"
  by (simp add: feedToArticle_def split: tickerValue.splits)

lemma newsApiTry_Threw:
  "newsApiTry up = Threw \<longleftrightarrow> newsapi up = HttpError \<or> newsapi up = HttpOk None"
  by (simp add: newsApiTry_def split: http.splits option.splits)

lemma alphaVantageTry_Threw:
  "alphaVantageTry up = Threw \<longleftrightarrow>
     alphavantage up = HttpError
     \<or> (\<exists>b. alphavantage up = HttpOk (Some b)
           \<and> (body_feed b = FeedNotArray
              \<or> (\<exists>items. body_feed b = Feed items
                    \<and> (\<exists>item \<in> set items. item_ticker_sentiment item = TickersNotArray))))"
proof (cases "alphavantage up")
  case HttpError
  then show ?thesis by (simp add: alphaVantageTry_def)
next
  case (HttpOk d)
  show ?thesis
  proof (cases d)
    case None
    then show ?thesis using HttpOk by (simp add: alphaVantageTry_def)
  next
    case (Some b)
    show ?thesis
    proof (cases "body_feed b")
      case NoFeed
      then show ?thesis using HttpOk Some by (simp add: alphaVantageTry_def)
    next
      case FeedNotArray
      then show ?thesis using HttpOk Some by (simp add: alphaVantageTry_def)
    next
      case (Feed items)
      show ?thesis
      proof (cases "those (map feedToArticle items)")
        case None
        then have "\<exists>item \<in> set items. item_ticker_sentiment item = TickersNotArray"
          by (simp only: those_None_iff feedToArticle_None)
        then show ?thesis using HttpOk Some Feed None by (simp add: alphaVantageTry_def)
      next
        case (Some as)
        then have "\<not> (\<exists>item \<in> set items. item_ticker_sentiment item = TickersNotArray)"
          using those_None_iff[of feedToArticle items]
          by (simp add: feedToArticle_None)
        then show ?thesis using HttpOk \<open>d = Some b\<close> Feed Some
          by (simp add: alphaVantageTry_def)
      qed
    qed
  qed
qed

lemma finnhubTry_Threw:
  "finnhubTry up = Threw \<longleftrightarrow>
     finnhub up = HttpError \<or> finnhub up = HttpOk None
     \<or> (\<exists>items. finnhub up = HttpOk (Some items)
            \<and> (\<exists>item \<in> set (take 10 items).
                  finnhubTime item = None \<or> fh_related item = RelatedNotString))"
proof (cases "finnhub up")
  case HttpError
  then show ?thesis by (simp add: finnhubTry_def)
next
  case (HttpOk d)
  show ?thesis
  proof (cases d)
    case None
    then show ?thesis using HttpOk by (simp add: finnhubTry_def)
  next
    case (Some items)
    show ?thesis
    proof (cases "those (map finnhubToArticle (take 10 items))")
      case None
      then have "\<exists>item \<in> set (take 10 items).
                   finnhubTime item = None \<or> fh_related item = RelatedNotString"
        by (simp only: those_None_iff finnhubToArticle_None)
      then show ?thesis using HttpOk Some None by (simp add: finnhubTry_def)
    next
      case (Some as)
      then have "\<not> (\<exists>item \<in> set (take 10 items).
                  finnhubTime item = None \<or> fh_related item = RelatedNotString)"
        using those_None_iff[of finnhubToArticle "take 10 items"]
        by (simp add: finnhubToArticle_None)
      then show ?thesis using HttpOk \<open>d = Some items\<close> Some by (simp add: finnhubTry_def)
    qed
  qed
qed

lemma fetchNewsAPI_returns: "\<exists>v. fst (fetchNewsAPI e up) = Returned v"
  by (cases "newsApiTry up") (simp_all add: fetchNewsAPI_def)

lemma fetchAlphaVantageNews_returns: "\<exists>v. fst (fetchAlphaVantageNews e up) = Returned v"
  by (cases "alphaVantageTry up") (simp_all add: fetchAlphaVantageNews_def)

lemma fetchFinnhubMarketNews_returns: "\<exists>v. fst (fetchFinnhubMarketNews e up) = Returned v"
  by (cases "finnhubTry up") (simp_all add: fetchFinnhubMarketNews_def)

lemma fetchNewsAPI_failure:
  assumes "newsapi up = HttpError \<or> newsapi up = HttpOk None"
  shows "fst (fetchNewsAPI e up) = Returned (Items [])"
proof -
  have "newsApiTry up = Threw" using assms by (simp only: newsApiTry_Threw)
  then show ?thesis by (simp add: fetchNewsAPI_def)
qed

lemma fetchAlphaVantageNews_failure:
  assumes "alphavantage up = HttpError \<or> alphavantage up = HttpOk None
           \<or> (\<exists>b. alphavantage up = HttpOk (Some b)
              \<and> (body_feed b = FeedNotArray
                 \<or> (\<exists>items. body_feed b = Feed items
                       \<and> (\<exists>item \<in> set items.
                             item_ticker_sentiment item = TickersNotArray))))"
  shows "fst (fetchAlphaVantageNews e up) = Returned (Items [])"
proof (cases "alphavantage up = HttpOk None")
  case True
  then have "alphaVantageTry up = Returned (Items [])" by (simp add: alphaVantageTry_def)
  then show ?thesis by (simp add: fetchAlphaVantageNews_def)
next
  case False
  then have "alphaVantageTry up = Threw" using assms by (simp only: alphaVantageTry_Threw) blast
  then show ?thesis by (simp add: fetchAlphaVantageNews_def)
qed

lemma fetchFinnhubMarketNews_failure:
  assumes "finnhub up = HttpError \<or> finnhub up = HttpOk None
     \<or> (\<exists>items. finnhub up = HttpOk (Some items)
            \<and> (\<exists>item \<in> set (take 10 items).
                  finnhubTime item = None \<or> fh_related item = RelatedNotString))"
  shows "fst (fetchFinnhubMarketNews e up) = Returned (Items [])"
proof -
  have "finnhubTry up = Threw" using assms by (simp only: finnhubTry_Threw)
  then show ?thesis by (simp add: fetchFinnhubMarketNews_def)
qed

lemma calls_with_key:
  "truthy (NEWS_API_KEY e) \<Longrightarrow> snd (fetchNewsAPI e up) = [''newsapi.org'']"
  "truthy (ALPHA_VANTAGE_KEY e) \<Longrightarrow> snd (fetchAlphaVantageNews e up) = [''www.alphavantage.co'']"
  "truthy (FINNHUB_KEY e) \<Longrightarrow> snd (fetchFinnhubMarketNews e up) = [''finnhub.io'']"
proof -
  show "truthy (NEWS_API_KEY e) \<Longrightarrow> snd (fetchNewsAPI e up) = [''newsapi.org'']"
    by (cases "newsApiTry up") (simp_all add: fetchNewsAPI_def)
  show "truthy (ALPHA_VANTAGE_KEY e) \<Longrightarrow> snd (fetchAlphaVantageNews e up) = [''www.alphavantage.co'']"
    by (cases "alphaVantageTry up") (simp_all add: fetchAlphaVantageNews_def)
  show "truthy (FINNHUB_KEY e) \<Longrightarrow> snd (fetchFinnhubMarketNews e up) = [''finnhub.io'']"
    by (cases "finnhubTry up") (simp_all add: fetchFinnhubMarketNews_def)
qed

text \<open>
  Claim C3, amended. Every news adapter returns a value and never lets an error reach its
  caller. When its API key is absent or empty it returns the empty item list without
  calling the upstream; with a key it makes one call. It returns the empty item list on a
  network error, a non-2xx status or a timeout, on an absent response body, and on a
  payload that makes its processing throw: for Alpha Vantage a feed that is not an array
  or an item whose \<open>ticker_sentiment\<close> is neither absent nor an array, for Finnhub data
  that is not an array or, among the first ten items, one whose \<open>datetime\<close> is missing or
  out of range or whose \<open>related\<close> is truthy and not a string. The failure result is the
  empty item list. A NewsAPI body whose \<open>articles\<close> is present but not an array, and the
  ad-network adapters, are not covered.
\<close>

theorem news_adapters_isolate_failures:
  "(\<exists>v. fst (fetchNewsAPI e up) = Returned v)
   \<and> (\<exists>v. fst (fetchAlphaVantageNews e up) = Returned v)
   \<and> (\<exists>v. fst (fetchFinnhubMarketNews e up) = Returned v)
   \<and> (\<not> truthy (NEWS_API_KEY e) \<longrightarrow> fetchNewsAPI e up = (Returned (Items []), []))
   \<and> (\<not> truthy (ALPHA_VANTAGE_KEY e)
        \<longrightarrow> fetchAlphaVantageNews e up = (Returned (Items []), []))
   \<and> (\<not> truthy (FINNHUB_KEY e)
        \<longrightarrow> fetchFinnhubMarketNews e up = (Returned (Items []), []))
   \<and> (truthy (NEWS_API_KEY e) \<longrightarrow> snd (fetchNewsAPI e up) = [''newsapi.org''])
   \<and> (truthy (ALPHA_VANTAGE_KEY e)
        \<longrightarrow> snd (fetchAlphaVantageNews e up) = [''www.alphavantage.co''])
   \<and> (truthy (FINNHUB_KEY e) \<longrightarrow> snd (fetchFinnhubMarketNews e up) = [''finnhub.io''])
   \<and> (newsapi up = HttpError \<or> newsapi up = HttpOk None
        \<longrightarrow> fst (fetchNewsAPI e up) = Returned (Items []))
   \<and> (alphavantage up = HttpError \<or> alphavantage up = HttpOk None
        \<or> (\<exists>b. alphavantage up = HttpOk (Some b)
              \<and> (body_feed b = FeedNotArray
                 \<or> (\<exists>items. body_feed b = Feed items
                       \<and> (\<exists>item \<in> set items.
                             item_ticker_sentiment item = TickersNotArray))))
        \<longrightarrow> fst (fetchAlphaVantageNews e up) = Returned (Items []))
   \<and> (finnhub up = HttpError \<or> finnhub up = HttpOk None
        \<or> (\<exists>items. finnhub up = HttpOk (Some items)
               \<and> (\<exists>item \<in> set (take 10 items).
                  finnhubTime item = None \<or> fh_related item = RelatedNotString))
        \<longrightarrow> fst (fetchFinnhubMarketNews e up) = Returned (Items []))"
proof (intro conjI impI)
  show "\<exists>v. fst (fetchNewsAPI e up) = Returned v" by (rule fetchNewsAPI_returns)
  show "\<exists>v. fst (fetchAlphaVantageNews e up) = Returned v" by (rule fetchAlphaVantageNews_returns)
  show "\<exists>v. fst (fetchFinnhubMarketNews e up) = Returned v" by (rule fetchFinnhubMarketNews_returns)
  show "fetchNewsAPI e up = (Returned (Items []), [])" if "\<not> truthy (NEWS_API_KEY e)"
    using that by (simp add: fetchNewsAPI_def)
  show "fetchAlphaVantageNews e up = (Returned (Items []), [])" if "\<not> truthy (ALPHA_VANTAGE_KEY e)"
    using that by (simp add: fetchAlphaVantageNews_def)
  show "fetchFinnhubMarketNews e up = (Returned (Items []), [])" if "\<not> truthy (FINNHUB_KEY e)"
    using that by (simp add: fetchFinnhubMarketNews_def)
  show "snd (fetchNewsAPI e up) = [''newsapi.org'']" if "truthy (NEWS_API_KEY e)"
    using that by (rule calls_with_key)
  show "snd (fetchAlphaVantageNews e up) = [''www.alphavantage.co'']" if "truthy (ALPHA_VANTAGE_KEY e)"
    using that by (rule calls_with_key)
  show "snd (fetchFinnhubMarketNews e up) = [''finnhub.io'']" if "truthy (FINNHUB_KEY e)"
    using that by (rule calls_with_key)
  show "fst (fetchNewsAPI e up) = Returned (Items [])"
    if "newsapi up = HttpError \<or> newsapi up = HttpOk None"
    using that by (rule fetchNewsAPI_failure)
  show "fst (fetchAlphaVantageNews e up) = Returned (Items [])"
    if "alphavantage up = HttpError \<or> alphavantage up = HttpOk None
        \<or> (\<exists>b. alphavantage up = HttpOk (Some b)
              \<and> (body_feed b = FeedNotArray
                 \<or> (\<exists>items. body_feed b = Feed items
                       \<and> (\<exists>item \<in> set items.
                             item_ticker_sentiment item = TickersNotArray))))"
    using that by (rule fetchAlphaVantageNews_failure)
  show "fst (fetchFinnhubMarketNews e up) = Returned (Items [])"
    if "finnhub up = HttpError \<or> finnhub up = HttpOk None
        \<or> (\<exists>items. finnhub up = HttpOk (Some items)
               \<and> (\<exists>item \<in> set (take 10 items).
                  finnhubTime item = None \<or> fh_related item = RelatedNotString))"
    using that by (rule fetchFinnhubMarketNews_failure)
qed

theorem news_adapters_isolate_failures_witness:
  "(\<not> truthy (NEWS_API_KEY noKeys) \<and> \<not> truthy (ALPHA_VANTAGE_KEY noKeys)
      \<and> \<not> truthy (FINNHUB_KEY noKeys))
   \<and> fetchNewsAPI noKeys overlapping = (Returned (Items []), [])
   \<and> fetchAlphaVantageNews noKeys overlapping = (Returned (Items []), [])
   \<and> fetchFinnhubMarketNews noKeys overlapping = (Returned (Items []), [])
   \<and> (truthy (NEWS_API_KEY allKeys) \<and> truthy (ALPHA_VANTAGE_KEY allKeys)
      \<and> truthy (FINNHUB_KEY allKeys))
   \<and> (newsapi allDown = HttpError \<and> alphavantage allDown = HttpError \<and> finnhub allDown = HttpError)
   \<and> fetchNewsAPI allKeys allDown = (Returned (Items []), [''newsapi.org''])
   \<and> fetchAlphaVantageNews allKeys allDown = (Returned (Items []), [''www.alphavantage.co''])
   \<and> fetchFinnhubMarketNews allKeys allDown = (Returned (Items []), [''finnhub.io''])
   \<and> (newsapi unreadable = HttpOk None
      \<and> alphavantage unreadable = HttpOk (Some \<lparr>body_feed = FeedNotArray\<rparr>)
      \<and> finnhub unreadable = HttpOk None)
   \<and> fst (fetchNewsAPI allKeys unreadable) = Returned (Items [])
   \<and> fst (fetchAlphaVantageNews allKeys unreadable) = Returned (Items [])
   \<and> fst (fetchFinnhubMarketNews allKeys unreadable) = Returned (Items [])
   \<and> (finnhub undated = HttpOk (Some [wireGold, wireNoDate]) \<and> finnhubTime wireNoDate = None)
   \<and> fst (fetchFinnhubMarketNews allKeys undated) = Returned (Items [])
   \<and> (alphavantage badItems = HttpOk (Some \<lparr>body_feed = Feed [feedBadTickers]\<rparr>)
      \<and> item_ticker_sentiment feedBadTickers = TickersNotArray
      \<and> finnhub badItems = HttpOk (Some [wireBadRelated])
      \<and> fh_related wireBadRelated = RelatedNotString)
   \<and> fst (fetchAlphaVantageNews allKeys badItems) = Returned (Items [])
   \<and> fst (fetchFinnhubMarketNews allKeys badItems) = Returned (Items [])"
proof -
  have k: "\<not> truthy (NEWS_API_KEY noKeys)" "\<not> truthy (ALPHA_VANTAGE_KEY noKeys)"
    "\<not> truthy (FINNHUB_KEY noKeys)" "truthy (NEWS_API_KEY allKeys)"
    "truthy (ALPHA_VANTAGE_KEY allKeys)" "truthy (FINNHUB_KEY allKeys)"
    by (simp_all add: truthy_def noKeys_def allKeys_def)
  have d: "newsapi allDown = HttpError" "alphavantage allDown = HttpError"
    "finnhub allDown = HttpError"
    by (simp_all add: allDown_def)
  have u: "newsapi unreadable = HttpOk None"
    "alphavantage unreadable = HttpOk (Some \<lparr>body_feed = FeedNotArray\<rparr>)"
    "finnhub unreadable = HttpOk None"
    by (simp_all add: unreadable_def)
  have n: "finnhub undated = HttpOk (Some [wireGold, wireNoDate])" "finnhubTime wireNoDate = None"
    by (simp_all add: undated_def finnhubTime_def wireNoDate_def)
  note t1 = news_adapters_isolate_failures[of noKeys overlapping]
  note t2 = news_adapters_isolate_failures[of allKeys allDown]
  note t3 = news_adapters_isolate_failures[of allKeys unreadable]
  note t4 = news_adapters_isolate_failures[of allKeys undated]
  note t5 = news_adapters_isolate_failures[of allKeys badItems]
  have b: "alphavantage badItems = HttpOk (Some \<lparr>body_feed = Feed [feedBadTickers]\<rparr>)"
    "item_ticker_sentiment feedBadTickers = TickersNotArray"
    "finnhub badItems = HttpOk (Some [wireBadRelated])"
    "fh_related wireBadRelated = RelatedNotString"
    by (simp_all add: badItems_def feedBadTickers_def wireBadRelated_def)
  have "\<exists>bd. alphavantage badItems = HttpOk (Some bd)
          \<and> (body_feed bd = FeedNotArray
             \<or> (\<exists>items. body_feed bd = Feed items
                   \<and> (\<exists>item \<in> set items. item_ticker_sentiment item = TickersNotArray)))"
    using b(1,2) by simp
  then have c5: "fst (fetchAlphaVantageNews allKeys badItems) = Returned (Items [])"
    using t5 by blast
  have "\<exists>item \<in> set (take 10 [wireBadRelated]).
          finnhubTime item = None \<or> fh_related item = RelatedNotString"
    using b(4) by simp
  then have c6: "fst (fetchFinnhubMarketNews allKeys badItems) = Returned (Items [])"
    using t5 b(3) by blast
  have c1: "fetchNewsAPI noKeys overlapping = (Returned (Items []), [])"
    "fetchAlphaVantageNews noKeys overlapping = (Returned (Items []), [])"
    "fetchFinnhubMarketNews noKeys overlapping = (Returned (Items []), [])"
    using t1 k by blast+
  have c2: "fetchNewsAPI allKeys allDown = (Returned (Items []), [''newsapi.org''])"
    "fetchAlphaVantageNews allKeys allDown = (Returned (Items []), [''www.alphavantage.co''])"
    "fetchFinnhubMarketNews allKeys allDown = (Returned (Items []), [''finnhub.io''])"
    using t2 k d by (simp_all add: prod_eq_iff)
  have c3: "fst (fetchNewsAPI allKeys unreadable) = Returned (Items [])"
    "fst (fetchAlphaVantageNews allKeys unreadable) = Returned (Items [])"
    "fst (fetchFinnhubMarketNews allKeys unreadable) = Returned (Items [])"
    using t3 u by simp_all
  have "\<exists>item \<in> set (take 10 [wireGold, wireNoDate]).
          finnhubTime item = None \<or> fh_related item = RelatedNotString"
    using n(2) by simp
  then have c4: "fst (fetchFinnhubMarketNews allKeys undated) = Returned (Items [])"
    using t4 n(1) by blast
  from k d u n c1 c2 c3 c4 b c5 c6 show ?thesis by (intro conjI)
qed

text \<open>
  The claim as stated fails in two places. With no AdSense client configured,
  \<open>adsenseAdapter\<close> returns a success result. And \<open>fetchNewsAPI\<close> hands on a payload whose
  \<open>articles\<close> is not an array as its result, where the claim has a failure result.
\<close>

theorem failures_passed_on_as_success:
  "GOOGLE_ADSENSE_CLIENT noKeys = None
   \<and> adsenseAdapter AD_NETWORKS noKeys ''banner''
     = AdReturns (Some \<lparr>success = True, network = ''adsense'', adRevenueScore = 9 / 10,
         adLoadTime = 120, estimatedRevenue = Some (8 / 10)\<rparr>)
   \<and> newsapi malformedNewsApi = HttpOk (Some \<lparr>body_articles = NotIterable\<rparr>)
   \<and> fetchNewsAPI allKeys malformedNewsApi = (Returned NotIterable, [''newsapi.org''])"
  by (simp add: noKeys_def adsenseAdapter_def adsenseUnit_def AD_NETWORKS_def
      malformedNewsApi_def fetchNewsAPI_def newsApiTry_def orEmpty_def allKeys_def truthy_def)


section \<open>Performance records and the attempt loop\<close>


lemma keys_setPerf: "fst ` set (setPerf k p l) = insert k (fst ` set l)"
proof (induction l)
  case Nil
  then show ?case by simp
next
  case (Cons kp l)
  obtain k' p' where kp: "kp = (k', p')" by (cases kp)
  show ?case
  proof (cases "k' = k")
    case True
    then show ?thesis by (simp add: kp)
  next
    case False
    then show ?thesis using Cons by (simp add: kp insert_commute)
  qed
qed

lemma keys_updatePerformanceMetrics:
  "fst ` set (networkPerformance (updatePerformanceMetrics k ok revenue m))
   = insert k (fst ` set (networkPerformance m))"
  by (simp add: updatePerformanceMetrics_def Let_def keys_setPerf)



lemma tryNetworks_keys:
  "fst ` set (networkPerformance (fst (snd (tryNetworks gen l m))))
   \<subseteq> fst ` set (networkPerformance m) \<union> set (snd (snd (tryNetworks gen l m)))"
proof (induction l arbitrary: m)
  case Nil
  then show ?case by simp
next
  case (Cons kc l)
  obtain k c where kc: "kc = (k, c)" by (cases kc)
  show ?case
  proof (cases "gen k")
    case AdThrows
    then show ?thesis
    proof -
      obtain a m' tried where t: "tryNetworks gen l (updatePerformanceMetrics k False 0 m) = (a, m', tried)"
        by (cases "tryNetworks gen l (updatePerformanceMetrics k False 0 m)") auto
      have "fst ` set (networkPerformance m') \<subseteq> insert k (fst ` set (networkPerformance m)) \<union> set tried"
        using Cons[of "updatePerformanceMetrics k False 0 m"]
        by (simp add: t keys_updatePerformanceMetrics)
      then show ?thesis using AdThrows by (auto simp: kc t)
    qed
  next
    case (AdReturns r)
    show ?thesis
    proof (cases r)
      case None
      obtain a m' tried where t: "tryNetworks gen l m = (a, m', tried)"
        by (cases "tryNetworks gen l m") auto
      have "fst ` set (networkPerformance m') \<subseteq> fst ` set (networkPerformance m) \<union> set tried"
        using Cons[of m] by (simp add: t)
      then show ?thesis using AdReturns None by (auto simp: kc t)
    next
      case (Some a)
      obtain a' m' tried where t: "tryNetworks gen l m = (a', m', tried)"
        by (cases "tryNetworks gen l m") auto
      have "fst ` set (networkPerformance m') \<subseteq> fst ` set (networkPerformance m) \<union> set tried"
        using Cons[of m] by (simp add: t)
      then show ?thesis
        using AdReturns Some by (auto simp: kc t keys_updatePerformanceMetrics)
    qed
  qed
qed


section \<open>Ad network ranking and recording\<close>
















end
